theory Spec2Isabelle
  imports Complex_Main "HOL-Library.Char_ord" "HOL-Library.List_Lexorder"
begin

section \<open>Platform values: strings, numbers, clock\<close>

text \<open>
  JavaScript strings are modelled as \<open>string\<close>, text outside ASCII by its UTF-8
  bytes; their comparison operators are the lexicographic order on the characters
  (\<open>List_Lexorder\<close> over \<open>Char_ord\<close>). Instants are milliseconds since the epoch
  (\<open>int\<close>); an ISO-8601 string produced by \<open>toISOString\<close> and read back by
  \<open>new Date\<close> is represented by that number. Numbers that the program only ever uses
  as integers are \<open>int\<close> or \<open>nat\<close>, taken exactly. An object used as a dictionary
  is a map from its keys.
\<close>

text \<open>A call that may throw: the message of the error, or the value returned.\<close>

datatype 'a outcome = Throws string | Returns 'a

definition digit_char :: "nat \<Rightarrow> char" where
  "digit_char d =
     (if d = 0 then CHR ''0'' else if d = 1 then CHR ''1'' else if d = 2 then CHR ''2''
      else if d = 3 then CHR ''3'' else if d = 4 then CHR ''4'' else if d = 5 then CHR ''5''
      else if d = 6 then CHR ''6'' else if d = 7 then CHR ''7'' else if d = 8 then CHR ''8''
      else CHR ''9'')"

text \<open>\<open>Number.prototype.toString\<close> on a natural number.\<close>

function toString_nat :: "nat \<Rightarrow> string" where
  "toString_nat n =
     (if n < 10 then [digit_char n] else toString_nat (n div 10) @ [digit_char (n mod 10)])"
  by pat_completeness auto
termination
  by (relation "measure id") auto

definition toString_int :: "int \<Rightarrow> string" where
  "toString_int i = (if i < 0 then ''-'' @ toString_nat (nat (- i)) else toString_nat (nat i))"

definition padStart :: "string \<Rightarrow> nat \<Rightarrow> char \<Rightarrow> string" where
  "padStart s n c = replicate (n - length s) c @ s"

definition startsWith :: "string \<Rightarrow> string \<Rightarrow> bool" where
  "startsWith s p = (take (length p) s = p)"

text \<open>\<open>String.prototype.split\<close> with a one-character separator.\<close>

fun split_on :: "char \<Rightarrow> string \<Rightarrow> string list" where
  "split_on sep [] = [[]]"
| "split_on sep (c # cs) =
     (if c = sep then [] # split_on sep cs
      else (case split_on sep cs of [] \<Rightarrow> [[c]] | w # ws \<Rightarrow> (c # w) # ws))"

text \<open>Indexing an array: \<open>undefined\<close> out of range.\<close>

definition at_index :: "'a list \<Rightarrow> nat \<Rightarrow> 'a option" where
  "at_index xs i = (if i < length xs then Some (xs ! i) else None)"

text \<open>\<open>s || d\<close> for a possibly missing string: the empty string is falsy.\<close>

definition or_default :: "string option \<Rightarrow> string \<Rightarrow> string" where
  "or_default v d = (case v of None \<Rightarrow> d | Some s \<Rightarrow> if s = [] then d else s)"

text \<open>
  \<open>parseInt\<close> without a radix. The argument is turned into a string (\<open>undefined\<close>
  reads as the word), leading white space is skipped, a sign is read, a prefix \<open>0x\<close> or
  \<open>0X\<close> selects radix 16, and the longest run of digits is the value; with no digit
  the result is \<open>NaN\<close>, here \<open>None\<close>. White space is the set of the language: tab,
  line feed, vertical tab, form feed, carriage return, space, and in UTF-8 the no-break
  space, U+1680, U+2000 to U+200A, U+2028, U+2029, U+202F, U+205F, U+3000 and U+FEFF.
\<close>

definition white_space_length :: "string \<Rightarrow> nat" where
  "white_space_length s =
     (case s of
        [] \<Rightarrow> 0
      | a # r \<Rightarrow>
          if a \<in> set [CHR 0x09, CHR 0x0A, CHR 0x0B, CHR 0x0C, CHR 0x0D, CHR 0x20] then 1
          else (case r of
                  [] \<Rightarrow> 0
                | b # r' \<Rightarrow>
                    if a = CHR 0xC2 \<and> b = CHR 0xA0 then 2
                    else (case r' of
                            [] \<Rightarrow> 0
                          | c # r'' \<Rightarrow>
                              if [a, b, c] \<in> set
                                   [[CHR 0xE1, CHR 0x9A, CHR 0x80], [CHR 0xE2, CHR 0x80, CHR 0xA8],
                                    [CHR 0xE2, CHR 0x80, CHR 0xA9], [CHR 0xE2, CHR 0x80, CHR 0xAF],
                                    [CHR 0xE2, CHR 0x81, CHR 0x9F], [CHR 0xE3, CHR 0x80, CHR 0x80],
                                    [CHR 0xEF, CHR 0xBB, CHR 0xBF]]
                                 \<or> (a = CHR 0xE2 \<and> b = CHR 0x80 \<and>
                                     (128::nat) \<le> of_char c \<and> (of_char c :: nat) \<le> 138)
                              then 3 else 0)))"

function trimStart :: "string \<Rightarrow> string" where
  "trimStart s =
     (if white_space_length s = 0 then s else trimStart (drop (white_space_length s) s))"
  by pat_completeness auto
termination
  by (relation "measure length") (auto simp: white_space_length_def split: list.splits if_splits)

definition digit_value :: "nat \<Rightarrow> char \<Rightarrow> nat option" where
  "digit_value radix c =
     (let n = (of_char c :: nat);
          v = (if 48 \<le> n \<and> n \<le> 57 then Some (n - 48)
               else if 97 \<le> n \<and> n \<le> 122 then Some (n - 87)
               else if 65 \<le> n \<and> n \<le> 90 then Some (n - 55)
               else None)
      in case v of None \<Rightarrow> None | Some d \<Rightarrow> if d < radix then Some d else None)"

definition parseInt :: "string option \<Rightarrow> int option" where
  "parseInt v =
     (let inputString = (case v of None \<Rightarrow> ''undefined'' | Some s \<Rightarrow> s);
          S = trimStart inputString;
          sign = (if take 1 S = ''-'' then - 1 else 1);
          S1 = (if take 1 S = ''-'' \<or> take 1 S = ''+'' then drop 1 S else S);
          hex = (take 2 S1 = ''0x'' \<or> take 2 S1 = ''0X'');
          R = (if hex then 16 else 10);
          S2 = (if hex then drop 2 S1 else S1);
          Z = takeWhile (\<lambda>c. digit_value R c \<noteq> None) S2
      in if Z = [] then None
         else Some (sign * int (foldl (\<lambda>acc c. acc * R +
                                        (case digit_value R c of None \<Rightarrow> 0 | Some d \<Rightarrow> d))
                                  0 Z)))"

text \<open>
  What one \<open>new Date()\<close> gives: the instant, \<open>toDateString()\<close> (the local calendar
  day), \<open>getHours()\<close> and \<open>getMinutes()\<close>, and the calendar arithmetic of the
  platform on that date: \<open>tomorrow_at h m\<close> is the time value after
  \<open>setDate(getDate() + 1)\<close>, \<open>setHours(h)\<close> and \<open>setMinutes(m)\<close>, or \<open>None\<close> when
  the result is not a valid date. One operation reads one clock value.
\<close>

record clock =
  now_ms :: int
  date_string :: string
  hours :: nat
  minutes :: nat
  tomorrow_at :: "int \<Rightarrow> int \<Rightarrow> int option"

definition currentTime :: "clock \<Rightarrow> string" where
  "currentTime clk =
     padStart (toString_nat (hours clk)) 2 CHR ''0'' @ '':'' @
     padStart (toString_nat (minutes clk)) 2 CHR ''0''"

text \<open>A retry hint (\<open>scheduledFor\<close>) is the ISO-8601 string of an instant.\<close>

datatype schedule_hint = AtInstant int

text \<open>
  A \<open>Date\<close> holds a time value of at most 8.64e15 milliseconds either side of the epoch
  and is invalid otherwise. \<open>toISOString\<close> on an invalid date throws a \<open>RangeError\<close>;
  its message is the engine's (this is V8's).
\<close>

definition valid_time :: "int \<Rightarrow> bool" where
  "valid_time t = (\<bar>t\<bar> \<le> 8640000000000000)"

definition Invalid_time_value :: string where
  "Invalid_time_value = ''Invalid time value''"

definition toISOString :: "int \<Rightarrow> schedule_hint outcome" where
  "toISOString t = (if valid_time t then Returns (AtInstant t) else Throws Invalid_time_value)"

section \<open>Agent service\<close>

text \<open>
  \<open>callAIAgent\<close> lives outside the modelled files. A call either rejects with an error
  message or resolves to a response. The prompt text is a template over the values listed
  in the constructor; the rendering is not modelled.
\<close>

record agent_result =
  classification :: "string option"
  key_signals :: "string list option"
  winning_phrases :: "string list option"
  other_content :: string

record agent_response =
  resp_status :: string
  resp_result :: "agent_result option"
  resp_message :: "string option"

definition RESPONSE_CLASSIFIER :: string where
  "RESPONSE_CLASSIFIER = ''696ee9fa3bd35d7a6606a53b''"

definition MONITORING_MANAGER :: string where
  "MONITORING_MANAGER = ''696eeacdb50537828e0aff83''"

definition TRANSCRIPT_ANALYST :: string where
  "TRANSCRIPT_ANALYST = ''696ee9e2b50537828e0aff6e''"

definition RESEARCH_MANAGER :: string where
  "RESEARCH_MANAGER = ''696eeaf33bd35d7a6606a54c''"

definition LINKEDIN_ORCHESTRATOR :: string where
  "LINKEDIN_ORCHESTRATOR = ''696eea5cb50537828e0aff79''"

section \<open>Data of the integrations\<close>

subsection \<open>Gmail\<close>

record sendingSchedule =
  startTime :: string
  endTime :: string

record EmailConfig =
  dailyLimit :: int
  em_sendingSchedule :: sendingSchedule
  trackOpens :: bool
  trackClicks :: bool
  warmupEnabled :: bool

record OutreachEmail =
  oe_to :: string
  oe_subject :: string
  oe_body :: string
  oe_accountId :: "string option"
  oe_outreachId :: "string option"

record EmailSendResult =
  em_success :: bool
  em_messageId :: "string option"
  em_error :: "string option"
  em_scheduledFor :: "schedule_hint option"

record sent_email =
  se_messageId :: string
  se_email :: OutreachEmail
  se_sentAt :: int

subsection \<open>LinkedIn\<close>

record LinkedInConfig =
  dailyConnectionLimit :: int
  dailyInMailLimit :: int
  actionDelayMinutes :: int
  li_sendingSchedule :: sendingSchedule
  enableEngagement :: bool
  safetyLimitsEnabled :: bool

datatype action_type = connection | inmail

record ConnectionRequest =
  cr_profileUrl :: string
  cr_firstName :: string
  cr_lastName :: string
  cr_headline :: "string option"
  cr_message :: string

record InMailMessage =
  im_profileUrl :: string
  im_subject :: string
  im_body :: string

record LinkedInActionResult =
  li_success :: bool
  li_actionId :: "string option"
  li_error :: "string option"
  li_scheduledFor :: "schedule_hint option"

record linkedin_action =
  la_type :: string
  la_profileUrl :: string
  la_message :: "string option"
  la_subject :: "string option"
  la_body :: "string option"
  la_timestamp :: int
  la_result :: "agent_result option"

subsection \<open>Calendly\<close>

record calendly_invitee =
  inv_name :: string
  inv_email :: string
  inv_timezone :: string
  inv_created_at :: string
  inv_canceled :: bool

record calendly_event_type =
  et_name :: string
  et_duration :: int

record calendly_location =
  loc_type :: string
  loc_location :: "string option"

record calendly_scheduled_event =
  start_time :: string
  end_time :: string
  location :: calendly_location

record calendly_payload =
  pl_event :: string
  invitee :: calendly_invitee
  event_type :: calendly_event_type
  scheduled_event :: calendly_scheduled_event

record CalendlyWebhookPayload =
  cw_event :: string
  cw_payload :: calendly_payload

text \<open>The \<open>meetingData\<close> object of \<open>handleCalendlyWebhook\<close>, stored with \<open>id: Date.now()\<close>.\<close>

record meeting_data =
  md_event_type :: string
  md_invitee_name :: string
  md_invitee_email :: string
  md_meeting_type :: string
  md_meeting_duration :: int
  md_start_time :: string
  md_end_time :: string
  md_timezone :: string
  md_status :: string

record CalendlyConfig =
  enablePreMeetingResearch :: bool
  preMeetingEmailEnabled :: bool
  autoUpdateCRM :: bool

record CalendlyMeeting =
  eventId :: string
  eventType :: string
  inviteeName :: string
  inviteeEmail :: string
  startTime_m :: string
  endTime_m :: string
  timezone :: string
  status :: string
  meetingType :: string
  duration :: int
  location_m :: "calendly_location option"

text \<open>
  An element of the \<open>calendly_meetings\<close> array: the meeting's fields together with
  the \<open>createdAt\<close> / \<open>updatedAt\<close> stamps that the helpers add.
\<close>

record stored_meeting =
  meeting :: CalendlyMeeting
  createdAt :: "int option"
  updatedAt :: "int option"

record research_record =
  rr_eventId :: string
  rr_inviteeName :: string
  rr_research :: "agent_result option"
  rr_timestamp :: int

text \<open>
  The pre-meeting email record; the rendered subject and body are a template over the
  meeting and the research found for it.
\<close>

record pre_meeting_email =
  pme_eventId :: string
  pme_to :: string
  pme_meeting :: CalendlyMeeting
  pme_research :: "agent_result option"
  pme_timestamp :: int

subsection \<open>Transcripts\<close>

record otter_participant =
  op_name :: string
  op_email :: "string option"
  op_speaker_id :: string

record OtterWebhookPayload =
  meeting_id :: string
  ot_title :: string
  transcript :: string
  ot_summary :: "string option"
  participants :: "otter_participant list"
  ot_start_time :: string
  ot_end_time :: string
  duration_seconds :: int

record transcript_analysis =
  ta_meeting_id :: string
  ta_title :: string
  ta_transcript :: string
  ta_analysis :: "agent_result option"
  ta_timestamp :: int

record voice_phrase =
  phrase :: string
  success_rate :: int
  use_count :: int
  added_at :: int

subsection \<open>Slack\<close>

record enableNotifications =
  newOutreachStaged :: bool
  positiveResponses :: bool
  meetingsBooked :: bool
  dailyDigest :: bool

record SlackConfig =
  approvalChannel :: string
  sc_enableNotifications :: enableNotifications
  digestTime :: string
  webhookUrl :: "string option"

record ApprovalNotification =
  an_outreachId :: string
  an_accountName :: string
  an_contactName :: string
  an_subject :: string
  an_preview :: string
  an_icpScore :: "int option"
  an_channel :: "string option"

record button =
  btn_text :: string
  btn_style :: "string option"
  action_id :: string
  btn_value :: string

datatype block =
    Header string
  | SectionFields "string list"
  | SectionText string
  | Divider
  | Actions "button list"

record SlackMessage =
  sm_channel :: string
  sm_text :: string
  sm_blocks :: "block list option"

record slack_history_entry =
  he_message :: SlackMessage
  he_timestamp :: int

record notification =
  n_type :: string
  n_outreachId :: "string option"
  n_from :: "string option"
  n_accountName :: "string option"
  n_timestamp :: int

record slack_user =
  user_id :: string
  username :: string
  user_name :: string

record slack_action =
  sa_action_id :: string
  sa_value :: string
  sa_type :: string

record SlackInteractionPayload =
  sp_type :: string
  sp_user :: slack_user
  sp_actions :: "slack_action list option"

text \<open>
  The values of the \<open>approvals\<close> object: the shape written by \<open>handleApproval\<close>
  (status, approved_by, approved_at) and the one written by \<open>handleSlackApproval\<close>
  (action, userId, userName, timestamp, source).
\<close>

datatype approval =
    Decision string string int
  | SlackDecision string string string int string

subsection \<open>Gmail replies\<close>

record gmail_message =
  gm_id :: string
  gm_threadId :: string
  gm_from :: string
  gm_to :: string
  gm_subject :: string
  gm_body :: string
  gm_timestamp :: int
  gm_inReplyTo :: "string option"

record GmailResponsePayload =
  historyId :: string
  gp_message :: gmail_message

record email_response =
  er_message_id :: string
  er_thread_id :: string
  er_from :: string
  er_classification :: "agent_result option"
  er_timestamp :: int

subsection \<open>Prompts sent to the agent service\<close>

datatype prompt =
    MeetingEventPrompt string meeting_data
  | TranscriptPrompt string int "string list" string
  | ClassifyPrompt string string string
  | MeetingBookedPrompt CalendlyMeeting
  | MeetingCanceledPrompt CalendlyMeeting
  | MeetingRescheduledPrompt CalendlyMeeting
  | ResearchPrompt CalendlyMeeting "string option"
  | ConnectionPrompt ConnectionRequest
  | InMailPrompt InMailMessage
  | EmailSentPrompt string string string

type_synonym agent = "string \<Rightarrow> prompt \<Rightarrow> agent_response outcome"

section \<open>The browser store\<close>

text \<open>
  \<open>localStorage\<close>, one field per key the program uses. A value is the object that
  the program writes with \<open>JSON.stringify\<close> and reads back with \<open>JSON.parse\<close>
  (or, for the counters, with \<open>toString\<close> and \<open>parseInt\<close>); a missing key is
  \<open>None\<close>, an empty list or an empty map, according to the default the reading code
  substitutes. The day-keyed counters \<open>gmail_sent_<day>\<close>,
  \<open>linkedin_connections_<day>\<close> and \<open>linkedin_inmails_<day>\<close> are maps from the day
  string. The field \<open>slack_console\<close> holds the console lines printed by the placeholder
  \<open>sendSlackNotification\<close> (channel and message), its only effect; other console output
  is not modelled.
\<close>

record local_storage =
  gmail_config :: "EmailConfig option"
  gmail_first_send_date :: "int option"
  gmail_sent :: "string \<rightharpoonup> nat"
  sent_emails :: "sent_email list"
  email_responses :: "email_response list"
  linkedin_config :: "LinkedInConfig option"
  linkedin_connections :: "string \<rightharpoonup> nat"
  linkedin_inmails :: "string \<rightharpoonup> nat"
  linkedin_last_action :: "int option"
  linkedin_actions :: "linkedin_action list"
  meetings :: "(meeting_data \<times> int) list"
  transcripts :: "transcript_analysis list"
  voice_library :: "voice_phrase list"
  approvals :: "string \<rightharpoonup> approval"
  calendly_config :: "CalendlyConfig option"
  calendly_meetings :: "stored_meeting list"
  pre_meeting_research :: "research_record list"
  pre_meeting_emails :: "pre_meeting_email list"
  slack_config :: "SlackConfig option"
  slack_notifications :: "notification list"
  slack_message_history :: "slack_history_entry list"
  slack_console :: "(string \<times> string) list"

definition empty_storage :: local_storage where
  "empty_storage =
     \<lparr>gmail_config = None, gmail_first_send_date = None, gmail_sent = Map.empty,
      sent_emails = [], email_responses = [], linkedin_config = None,
      linkedin_connections = Map.empty, linkedin_inmails = Map.empty,
      linkedin_last_action = None, linkedin_actions = [], meetings = [], transcripts = [],
      voice_library = [], approvals = Map.empty, calendly_config = None,
      calendly_meetings = [], pre_meeting_research = [], pre_meeting_emails = [],
      slack_config = None, slack_notifications = [], slack_message_history = [],
      slack_console = []\<rparr>"

section \<open>Gmail: sending limits\<close>

definition DEFAULT_EMAIL_CONFIG :: EmailConfig where
  "DEFAULT_EMAIL_CONFIG =
     \<lparr>dailyLimit = 50,
      em_sendingSchedule = \<lparr>startTime = ''09:00'', endTime = ''17:00''\<rparr>,
      trackOpens = True, trackClicks = True, warmupEnabled = True\<rparr>"

definition getEmailConfig :: "local_storage \<Rightarrow> EmailConfig" where
  "getEmailConfig ls =
     (case gmail_config ls of Some stored \<Rightarrow> stored | None \<Rightarrow> DEFAULT_EMAIL_CONFIG)"

text \<open>
  The first call on a store without \<open>gmail_first_send_date\<close> writes the current instant
  there and answers 0; later calls round the elapsed days up.
\<close>

definition getAccountAgeInDays :: "clock \<Rightarrow> local_storage \<Rightarrow> int \<times> local_storage" where
  "getAccountAgeInDays clk ls =
     (case gmail_first_send_date ls of
        None \<Rightarrow> (0, ls\<lparr>gmail_first_send_date := Some (now_ms clk)\<rparr>)
      | Some firstSend \<Rightarrow>
          (let diffTime = \<bar>now_ms clk - firstSend\<bar>;
               diffDays = \<lceil>real_of_int diffTime / (1000 * 60 * 60 * 24)\<rceil>
           in (diffDays, ls)))"

definition getWarmupLimit :: "clock \<Rightarrow> local_storage \<Rightarrow> int \<times> local_storage" where
  "getWarmupLimit clk ls =
     (let (accountAge, ls') = getAccountAgeInDays clk ls
      in (if accountAge < 7 then 10
          else if accountAge < 14 then 25
          else if accountAge < 21 then 50
          else 100, ls'))"

definition isWithinSendingWindow :: "clock \<Rightarrow> local_storage \<Rightarrow> bool" where
  "isWithinSendingWindow clk ls =
     (let config = getEmailConfig ls
      in currentTime clk \<ge> startTime (em_sendingSchedule config) \<and>
         currentTime clk \<le> endTime (em_sendingSchedule config))"

definition getTodaySentCount :: "clock \<Rightarrow> local_storage \<Rightarrow> nat" where
  "getTodaySentCount clk ls =
     (case gmail_sent ls (date_string clk) of Some sentToday \<Rightarrow> sentToday | None \<Rightarrow> 0)"

definition incrementSentCount :: "clock \<Rightarrow> local_storage \<Rightarrow> local_storage" where
  "incrementSentCount clk ls =
     (let today = date_string clk; current = getTodaySentCount clk ls
      in ls\<lparr>gmail_sent := (gmail_sent ls)(today \<mapsto> current + 1)\<rparr>)"

definition canSendToday :: "clock \<Rightarrow> local_storage \<Rightarrow> bool \<times> local_storage" where
  "canSendToday clk ls =
     (let config = getEmailConfig ls;
          (warmupLimit, ls') =
             (if warmupEnabled config then getWarmupLimit clk ls else (dailyLimit config, ls));
          sentToday = getTodaySentCount clk ls'
      in (int sentToday < min warmupLimit (dailyLimit config), ls'))"

text \<open>
  \<open>getNextSendingWindow\<close>: tomorrow's date with the hours and minutes parsed from the two
  parts of the window start. An hour or minute that does not parse makes the date invalid,
  and \<open>toISOString\<close> throws.
\<close>

definition getNextSendingWindow :: "clock \<Rightarrow> local_storage \<Rightarrow> schedule_hint outcome" where
  "getNextSendingWindow clk ls =
     (let config = getEmailConfig ls;
          parts = split_on CHR '':'' (startTime (em_sendingSchedule config))
      in case (parseInt (at_index parts 0), parseInt (at_index parts 1)) of
           (Some h, Some m) \<Rightarrow>
             (case tomorrow_at clk h m of
                Some t \<Rightarrow> Returns (AtInstant t)
              | None \<Rightarrow> Throws Invalid_time_value)
         | _ \<Rightarrow> Throws Invalid_time_value)"

definition storeSentEmail :: "sent_email \<Rightarrow> local_storage \<Rightarrow> local_storage" where
  "storeSentEmail d ls = ls\<lparr>sent_emails := sent_emails ls @ [d]\<rparr>"

text \<open>
  \<open>sendOutreachEmail\<close>. The tracking pixel and the click-tracking rewrite only change
  the body handed to \<open>simulateGmailSend\<close>, which ignores it (the rewrite's
  \<open>encodeURIComponent\<close> throws only on a lone surrogate, which text given by its UTF-8
  bytes does not hold); the message id that
  \<open>simulateGmailSend\<close> makes up (time and a random suffix) is the argument \<open>messageId\<close>.
  A rejection of the agent call lands in the \<open>catch\<close>, after the counter and the
  sent-mail record were written; so does an error thrown while the next window is
  computed.
\<close>

definition sendOutreachEmail ::
  "agent \<Rightarrow> string \<Rightarrow> clock \<Rightarrow> local_storage \<Rightarrow> OutreachEmail \<Rightarrow> EmailSendResult \<times> local_storage"
where
  "sendOutreachEmail ag messageId clk ls email =
     (let (can, ls1) = canSendToday clk ls in
      if \<not> can then
        (\<lparr>em_success = False, em_messageId = None,
          em_error = Some ''Daily sending limit reached'', em_scheduledFor = None\<rparr>, ls1)
      else if \<not> isWithinSendingWindow clk ls1 then
        (case getNextSendingWindow clk ls1 of
           Throws msg \<Rightarrow>
             (\<lparr>em_success = False, em_messageId = None, em_error = Some msg,
               em_scheduledFor = None\<rparr>, ls1)
         | Returns nextWindow \<Rightarrow>
             (\<lparr>em_success = False, em_messageId = None,
               em_error = Some ''Outside sending window'',
               em_scheduledFor = Some nextWindow\<rparr>, ls1))
      else
        (let ls2 = incrementSentCount clk ls1;
             ls3 = storeSentEmail
                     \<lparr>se_messageId = messageId, se_email = email, se_sentAt = now_ms clk\<rparr> ls2
         in case ag MONITORING_MANAGER (EmailSentPrompt (oe_to email) (oe_subject email) messageId) of
              Throws msg \<Rightarrow>
                (\<lparr>em_success = False, em_messageId = None, em_error = Some msg,
                  em_scheduledFor = None\<rparr>, ls3)
            | Returns r \<Rightarrow>
                (\<lparr>em_success = True, em_messageId = Some messageId, em_error = None,
                  em_scheduledFor = None\<rparr>, ls3)))"

section \<open>LinkedIn: safety limits\<close>

definition DEFAULT_LINKEDIN_CONFIG :: LinkedInConfig where
  "DEFAULT_LINKEDIN_CONFIG =
     \<lparr>dailyConnectionLimit = 15, dailyInMailLimit = 10, actionDelayMinutes = 120,
      li_sendingSchedule = \<lparr>startTime = ''09:00'', endTime = ''17:00''\<rparr>,
      enableEngagement = True, safetyLimitsEnabled = True\<rparr>"

definition getLinkedInConfig :: "local_storage \<Rightarrow> LinkedInConfig" where
  "getLinkedInConfig ls =
     (case linkedin_config ls of Some stored \<Rightarrow> stored | None \<Rightarrow> DEFAULT_LINKEDIN_CONFIG)"

text \<open>\<open>getTodayLinkedInStats\<close>: the pair (connections, inmails) of today's counters.\<close>

definition getTodayLinkedInStats :: "clock \<Rightarrow> local_storage \<Rightarrow> nat \<times> nat" where
  "getTodayLinkedInStats clk ls =
     (let today = date_string clk;
          connections = (case linkedin_connections ls today of Some n \<Rightarrow> n | None \<Rightarrow> 0);
          inmails = (case linkedin_inmails ls today of Some n \<Rightarrow> n | None \<Rightarrow> 0)
      in (connections, inmails))"

definition canPerformAction :: "clock \<Rightarrow> local_storage \<Rightarrow> action_type \<Rightarrow> bool" where
  "canPerformAction clk ls actionType =
     (let config = getLinkedInConfig ls in
      if \<not> safetyLimitsEnabled config then True
      else
        (let stats = getTodayLinkedInStats clk ls in
         if actionType = connection then int (fst stats) < dailyConnectionLimit config
         else int (snd stats) < dailyInMailLimit config))"

definition isWithinLinkedInWindow :: "clock \<Rightarrow> local_storage \<Rightarrow> bool" where
  "isWithinLinkedInWindow clk ls =
     (let config = getLinkedInConfig ls
      in currentTime clk \<ge> startTime (li_sendingSchedule config) \<and>
         currentTime clk \<le> endTime (li_sendingSchedule config))"

definition getLastActionTime :: "local_storage \<Rightarrow> int option" where
  "getLastActionTime ls = linkedin_last_action ls"

definition canPerformActionNow :: "clock \<Rightarrow> local_storage \<Rightarrow> bool" where
  "canPerformActionNow clk ls =
     (let config = getLinkedInConfig ls in
      case getLastActionTime ls of
        None \<Rightarrow> True
      | Some lastAction \<Rightarrow>
          (let minutesSinceLastAction = real_of_int (now_ms clk - lastAction) / (1000 * 60)
           in minutesSinceLastAction \<ge> real_of_int (actionDelayMinutes config)))"

definition updateLastActionTime :: "clock \<Rightarrow> local_storage \<Rightarrow> local_storage" where
  "updateLastActionTime clk ls = ls\<lparr>linkedin_last_action := Some (now_ms clk)\<rparr>"

definition incrementActionCount :: "clock \<Rightarrow> action_type \<Rightarrow> local_storage \<Rightarrow> local_storage" where
  "incrementActionCount clk actionType ls =
     (let today = date_string clk in
      case actionType of
        connection \<Rightarrow>
          (let current = (case linkedin_connections ls today of Some n \<Rightarrow> n | None \<Rightarrow> 0)
           in ls\<lparr>linkedin_connections := (linkedin_connections ls)(today \<mapsto> current + 1)\<rparr>)
      | inmail \<Rightarrow>
          (let current = (case linkedin_inmails ls today of Some n \<Rightarrow> n | None \<Rightarrow> 0)
           in ls\<lparr>linkedin_inmails := (linkedin_inmails ls)(today \<mapsto> current + 1)\<rparr>))"

text \<open>
  \<open>getNextWindow\<close>: tomorrow's date with the hours and minutes parsed from the two parts
  of the window start. An hour or minute that does not parse makes the date invalid, and
  \<open>toISOString\<close> throws.
\<close>

definition getNextWindow :: "clock \<Rightarrow> local_storage \<Rightarrow> schedule_hint outcome" where
  "getNextWindow clk ls =
     (let config = getLinkedInConfig ls;
          parts = split_on CHR '':'' (startTime (li_sendingSchedule config))
      in case (parseInt (at_index parts 0), parseInt (at_index parts 1)) of
           (Some h, Some m) \<Rightarrow>
             (case tomorrow_at clk h m of
                Some t \<Rightarrow> Returns (AtInstant t)
              | None \<Rightarrow> Throws Invalid_time_value)
         | _ \<Rightarrow> Throws Invalid_time_value)"

text \<open>
  \<open>getNextAvailableTime\<close>: the current date when there is no last action, else the date
  of the last action plus the delay, as an ISO string.
\<close>

definition getNextAvailableTime :: "clock \<Rightarrow> local_storage \<Rightarrow> schedule_hint outcome" where
  "getNextAvailableTime clk ls =
     (let config = getLinkedInConfig ls in
      case getLastActionTime ls of
        None \<Rightarrow> Returns (AtInstant (now_ms clk))
      | Some lastAction \<Rightarrow> toISOString (lastAction + actionDelayMinutes config * 60 * 1000))"

definition storeLinkedInAction :: "linkedin_action \<Rightarrow> local_storage \<Rightarrow> local_storage" where
  "storeLinkedInAction d ls = ls\<lparr>linkedin_actions := linkedin_actions ls @ [d]\<rparr>"

definition li_denied :: "string \<Rightarrow> schedule_hint option \<Rightarrow> LinkedInActionResult" where
  "li_denied err hint =
     \<lparr>li_success = False, li_actionId = None, li_error = Some err, li_scheduledFor = hint\<rparr>"

text \<open>
  A denial whose retry hint is computed inside the \<open>try\<close>: when the computation throws,
  the \<open>catch\<close> of the send function answers with the error's message and no hint.
\<close>

definition li_denied_with :: "string \<Rightarrow> schedule_hint outcome \<Rightarrow> LinkedInActionResult" where
  "li_denied_with err hint =
     (case hint of
        Throws msg \<Rightarrow> li_denied msg None
      | Returns scheduledFor \<Rightarrow> li_denied err (Some scheduledFor))"

definition sendConnectionRequest ::
  "agent \<Rightarrow> clock \<Rightarrow> local_storage \<Rightarrow> ConnectionRequest \<Rightarrow> LinkedInActionResult \<times> local_storage"
where
  "sendConnectionRequest ag clk ls request =
     (if \<not> canPerformAction clk ls connection then
        (li_denied_with ''Daily connection limit reached'' (getNextWindow clk ls), ls)
      else if \<not> isWithinLinkedInWindow clk ls then
        (li_denied_with ''Outside sending window'' (getNextWindow clk ls), ls)
      else if \<not> canPerformActionNow clk ls then
        (let nextAvailable = getNextAvailableTime clk ls
         in (li_denied_with ''Action delay not met'' nextAvailable, ls))
      else
        (case ag LINKEDIN_ORCHESTRATOR (ConnectionPrompt request) of
           Throws msg \<Rightarrow> (li_denied msg None, ls)
         | Returns response \<Rightarrow>
             if resp_status response = ''success'' then
               (let ls1 = incrementActionCount clk connection ls;
                    ls2 = updateLastActionTime clk ls1;
                    ls3 = storeLinkedInAction
                            \<lparr>la_type = ''connection'', la_profileUrl = cr_profileUrl request,
                             la_message = Some (cr_message request), la_subject = None,
                             la_body = None, la_timestamp = now_ms clk,
                             la_result = resp_result response\<rparr> ls2
                in (\<lparr>li_success = True,
                     li_actionId = Some (''conn_'' @ toString_int (now_ms clk)),
                     li_error = None, li_scheduledFor = None\<rparr>, ls3))
             else
               (li_denied (or_default (resp_message response)
                             ''Failed to send connection request'') None, ls)))"

definition sendInMail ::
  "agent \<Rightarrow> clock \<Rightarrow> local_storage \<Rightarrow> InMailMessage \<Rightarrow> LinkedInActionResult \<times> local_storage"
where
  "sendInMail ag clk ls im =
     (if \<not> canPerformAction clk ls inmail then
        (li_denied_with ''Daily InMail limit reached'' (getNextWindow clk ls), ls)
      else if \<not> isWithinLinkedInWindow clk ls then
        (li_denied_with ''Outside sending window'' (getNextWindow clk ls), ls)
      else if \<not> canPerformActionNow clk ls then
        (li_denied_with ''Action delay not met'' (getNextAvailableTime clk ls), ls)
      else
        (case ag LINKEDIN_ORCHESTRATOR (InMailPrompt im) of
           Throws msg \<Rightarrow> (li_denied msg None, ls)
         | Returns response \<Rightarrow>
             if resp_status response = ''success'' then
               (let ls1 = incrementActionCount clk inmail ls;
                    ls2 = updateLastActionTime clk ls1;
                    ls3 = storeLinkedInAction
                            \<lparr>la_type = ''inmail'', la_profileUrl = im_profileUrl im,
                             la_message = None, la_subject = Some (im_subject im),
                             la_body = Some (im_body im), la_timestamp = now_ms clk,
                             la_result = resp_result response\<rparr> ls2
                in (\<lparr>li_success = True,
                     li_actionId = Some (''inmail_'' @ toString_int (now_ms clk)),
                     li_error = None, li_scheduledFor = None\<rparr>, ls3))
             else
               (li_denied (or_default (resp_message response) ''Failed to send InMail'') None,
                ls)))"

section \<open>Slack: notifications and approvals\<close>

definition nl :: string where
  "nl = [CHR 0x0A]"

definition join :: "string \<Rightarrow> string list \<Rightarrow> string" where
  "join sep xs = (case xs of [] \<Rightarrow> [] | y # ys \<Rightarrow> foldl (\<lambda>acc x. acc @ sep @ x) y ys)"

text \<open>A possibly \<open>undefined\<close> string inside a template literal.\<close>

definition render :: "string option \<Rightarrow> string" where
  "render v = (case v of None \<Rightarrow> ''undefined'' | Some s \<Rightarrow> s)"

definition DEFAULT_SLACK_CONFIG :: SlackConfig where
  "DEFAULT_SLACK_CONFIG =
     \<lparr>approvalChannel = ''#revenue-approvals'',
      sc_enableNotifications =
        \<lparr>newOutreachStaged = True, positiveResponses = True, meetingsBooked = True,
         dailyDigest = True\<rparr>,
      digestTime = ''08:00'', webhookUrl = None\<rparr>"

definition getSlackConfig :: "local_storage \<Rightarrow> SlackConfig" where
  "getSlackConfig ls =
     (case slack_config ls of Some stored \<Rightarrow> stored | None \<Rightarrow> DEFAULT_SLACK_CONFIG)"

definition truncate_text :: "string \<Rightarrow> nat \<Rightarrow> string" where
  "truncate_text text n = (if length text \<le> n then text else take n text @ ''...'')"

definition buildApprovalBlocks :: "ApprovalNotification \<Rightarrow> block list" where
  "buildApprovalBlocks notification =
     [Header (''New Outreach: '' @ an_accountName notification),
      SectionFields
        [''*Contact:*'' @ nl @ an_contactName notification,
         ''*ICP Score:*'' @ nl @
           (case an_icpScore notification of
              None \<Rightarrow> ''N/A''
            | Some score \<Rightarrow> if score = 0 then ''N/A'' else toString_int score @ ''/100'')],
      SectionText (''*Subject:*'' @ nl @ an_subject notification),
      SectionText (''*Preview:*'' @ nl @ truncate_text (an_preview notification) 200),
      Divider,
      Actions
        [\<lparr>btn_text = ''Approve'', btn_style = Some ''primary'',
          action_id = ''approve_'' @ an_outreachId notification,
          btn_value = an_outreachId notification\<rparr>,
         \<lparr>btn_text = ''Edit'', btn_style = None,
          action_id = ''edit_'' @ an_outreachId notification,
          btn_value = an_outreachId notification\<rparr>,
         \<lparr>btn_text = ''Reject'', btn_style = Some ''danger'',
          action_id = ''reject_'' @ an_outreachId notification,
          btn_value = an_outreachId notification\<rparr>]]"

definition sendSlackMessage :: "clock \<Rightarrow> SlackMessage \<Rightarrow> local_storage \<Rightarrow> local_storage" where
  "sendSlackMessage clk msg ls =
     ls\<lparr>slack_message_history :=
          slack_message_history ls @ [\<lparr>he_message = msg, he_timestamp = now_ms clk\<rparr>]\<rparr>"

definition storeNotification :: "notification \<Rightarrow> local_storage \<Rightarrow> local_storage" where
  "storeNotification d ls = ls\<lparr>slack_notifications := slack_notifications ls @ [d]\<rparr>"

definition sendApprovalNotification ::
  "clock \<Rightarrow> ApprovalNotification \<Rightarrow> local_storage \<Rightarrow> local_storage"
where
  "sendApprovalNotification clk notification ls =
     (let config = getSlackConfig ls in
      if \<not> newOutreachStaged (sc_enableNotifications config) then ls
      else
        (let blocks = buildApprovalBlocks notification;
             ls1 = sendSlackMessage clk
                     \<lparr>sm_channel = (case an_channel notification of
                                       None \<Rightarrow> approvalChannel config
                                     | Some c \<Rightarrow> if c = [] then approvalChannel config else c),
                      sm_text = ''New outreach staged for '' @ an_accountName notification,
                      sm_blocks = Some blocks\<rparr> ls
         in storeNotification
              \<lparr>n_type = ''approval'', n_outreachId = Some (an_outreachId notification),
               n_from = None, n_accountName = None, n_timestamp = now_ms clk\<rparr> ls1))"

record positive_response_params =
  pr_from :: string
  pr_accountName :: "string option"
  pr_subject :: string
  pr_preview :: string
  pr_signals :: "string list option"

text \<open>The bullet of the key-signal lines is U+2022, three bytes in UTF-8.\<close>

definition bullet :: string where
  "bullet = [CHR 0xE2, CHR 0x80, CHR 0xA2]"

definition sendPositiveResponseNotification ::
  "clock \<Rightarrow> positive_response_params \<Rightarrow> local_storage \<Rightarrow> local_storage"
where
  "sendPositiveResponseNotification clk params ls =
     (let config = getSlackConfig ls in
      if \<not> positiveResponses (sc_enableNotifications config) then ls
      else
        (let blocks =
               [Header ''Positive Response Received!'',
                SectionFields
                  [''*From:*'' @ nl @ pr_from params,
                   ''*Account:*'' @ nl @ render (pr_accountName params)],
                SectionText (''*Subject:*'' @ nl @ pr_subject params),
                SectionText (''*Message:*'' @ nl @ truncate_text (pr_preview params) 300)];
             blocks' =
               (case pr_signals params of
                  None \<Rightarrow> blocks
                | Some signals \<Rightarrow>
                    if length signals > 0 then
                      blocks @
                      [SectionText (''*Key Signals:*'' @ nl @
                         join nl (map (\<lambda>s. bullet @ '' '' @ s) signals))]
                    else blocks);
             ls1 = sendSlackMessage clk
                     \<lparr>sm_channel = approvalChannel config,
                      sm_text = ''Positive response from '' @ pr_from params,
                      sm_blocks = Some blocks'\<rparr> ls
         in storeNotification
              \<lparr>n_type = ''positive_response'', n_outreachId = None,
               n_from = Some (pr_from params), n_accountName = None,
               n_timestamp = now_ms clk\<rparr> ls1))"

record meeting_booked_params =
  mb_accountName :: "string option"
  mb_contactName :: string
  mb_meetingTime :: string
  mb_meetingType :: string
  mb_duration :: int

text \<open>
  \<open>toLocaleString\<close> of the platform renders the meeting time; it is the argument
  \<open>fmt\<close>.
\<close>

definition sendMeetingBookedNotification ::
  "(string \<Rightarrow> string) \<Rightarrow> clock \<Rightarrow> meeting_booked_params \<Rightarrow> local_storage \<Rightarrow> local_storage"
where
  "sendMeetingBookedNotification fmt clk params ls =
     (let config = getSlackConfig ls in
      if \<not> meetingsBooked (sc_enableNotifications config) then ls
      else
        (let blocks =
               [Header ''Meeting Booked!'',
                SectionFields
                  [''*Account:*'' @ nl @ render (mb_accountName params),
                   ''*Contact:*'' @ nl @ mb_contactName params,
                   ''*Time:*'' @ nl @ fmt (mb_meetingTime params),
                   ''*Duration:*'' @ nl @ toString_int (mb_duration params) @ '' minutes''],
                SectionText (''*Meeting Type:*'' @ nl @ mb_meetingType params)];
             ls1 = sendSlackMessage clk
                     \<lparr>sm_channel = approvalChannel config,
                      sm_text = ''Meeting booked with '' @ mb_contactName params @ '' at '' @
                                render (mb_accountName params),
                      sm_blocks = Some blocks\<rparr> ls
         in storeNotification
              \<lparr>n_type = ''meeting_booked'', n_outreachId = None, n_from = None,
               n_accountName = mb_accountName params,
               n_timestamp = now_ms clk\<rparr> ls1))"

text \<open>\<open>handleSlackApproval\<close> of the Slack utility: stores the decision under the outreach id.\<close>

definition handleSlackApproval ::
  "clock \<Rightarrow> string \<Rightarrow> string \<Rightarrow> string \<Rightarrow> string \<Rightarrow> local_storage \<Rightarrow> local_storage"
where
  "handleSlackApproval clk action outreachId userId userName ls =
     ls\<lparr>approvals :=
          (approvals ls)(outreachId \<mapsto>
             SlackDecision action userId userName (now_ms clk) ''slack'')\<rparr>"

section \<open>Calendly: meeting records\<close>

definition DEFAULT_CALENDLY_CONFIG :: CalendlyConfig where
  "DEFAULT_CALENDLY_CONFIG =
     \<lparr>enablePreMeetingResearch = True, preMeetingEmailEnabled = True, autoUpdateCRM = True\<rparr>"

definition getCalendlyConfig :: "local_storage \<Rightarrow> CalendlyConfig" where
  "getCalendlyConfig ls =
     (case calendly_config ls of Some stored \<Rightarrow> stored | None \<Rightarrow> DEFAULT_CALENDLY_CONFIG)"

definition storeMeeting :: "clock \<Rightarrow> CalendlyMeeting \<Rightarrow> local_storage \<Rightarrow> local_storage" where
  "storeMeeting clk m ls =
     ls\<lparr>calendly_meetings :=
          calendly_meetings ls @
          [\<lparr>meeting = m, createdAt = Some (now_ms clk), updatedAt = None\<rparr>]\<rparr>"

definition updateMeetingStatus :: "clock \<Rightarrow> string \<Rightarrow> string \<Rightarrow> local_storage \<Rightarrow> local_storage" where
  "updateMeetingStatus clk eid st ls =
     (let updated =
            map (\<lambda>m. if eventId (meeting m) = eid
                      then m\<lparr>meeting := (meeting m)\<lparr>status := st\<rparr>,
                             updatedAt := Some (now_ms clk)\<rparr>
                      else m)
                (calendly_meetings ls)
      in ls\<lparr>calendly_meetings := updated\<rparr>)"

definition updateMeeting :: "clock \<Rightarrow> CalendlyMeeting \<Rightarrow> local_storage \<Rightarrow> local_storage" where
  "updateMeeting clk mt ls =
     (let updated =
            map (\<lambda>m. if eventId (meeting m) = eventId mt
                      then \<lparr>meeting = mt, createdAt = None, updatedAt = Some (now_ms clk)\<rparr>
                      else m)
                (calendly_meetings ls)
      in ls\<lparr>calendly_meetings := updated\<rparr>)"

definition getMeeting :: "string \<Rightarrow> local_storage \<Rightarrow> stored_meeting option" where
  "getMeeting eid ls = find (\<lambda>m. eventId (meeting m) = eid) (calendly_meetings ls)"

definition storePreMeetingResearch :: "research_record \<Rightarrow> local_storage \<Rightarrow> local_storage" where
  "storePreMeetingResearch d ls = ls\<lparr>pre_meeting_research := pre_meeting_research ls @ [d]\<rparr>"

definition getPreMeetingResearch :: "string \<Rightarrow> local_storage \<Rightarrow> agent_result option" where
  "getPreMeetingResearch eid ls =
     (case find (\<lambda>r. rr_eventId r = eid) (pre_meeting_research ls) of
        None \<Rightarrow> None
      | Some meetingResearch \<Rightarrow> rr_research meetingResearch)"

definition storePreMeetingEmail :: "pre_meeting_email \<Rightarrow> local_storage \<Rightarrow> local_storage" where
  "storePreMeetingEmail d ls = ls\<lparr>pre_meeting_emails := pre_meeting_emails ls @ [d]\<rparr>"

text \<open>The research call sits in its own \<open>try\<close>: a rejection is logged and dropped.\<close>

definition triggerPreMeetingResearch ::
  "agent \<Rightarrow> clock \<Rightarrow> CalendlyMeeting \<Rightarrow> local_storage \<Rightarrow> local_storage"
where
  "triggerPreMeetingResearch ag clk mt ls =
     (let domain = at_index (split_on CHR ''@'' (inviteeEmail mt)) 1 in
      case ag RESEARCH_MANAGER (ResearchPrompt mt domain) of
        Throws msg \<Rightarrow> ls
      | Returns research \<Rightarrow>
          storePreMeetingResearch
            \<lparr>rr_eventId = eventId mt, rr_inviteeName = inviteeName mt,
             rr_research = resp_result research, rr_timestamp = now_ms clk\<rparr> ls)"

definition sendPreMeetingEmail :: "clock \<Rightarrow> CalendlyMeeting \<Rightarrow> local_storage \<Rightarrow> local_storage" where
  "sendPreMeetingEmail clk mt ls =
     (let research = getPreMeetingResearch (eventId mt) ls
      in storePreMeetingEmail
           \<lparr>pme_eventId = eventId mt, pme_to = inviteeEmail mt, pme_meeting = mt,
            pme_research = research, pme_timestamp = now_ms clk\<rparr> ls)"

text \<open>
  The three processors return nothing; a rejection of the monitoring call leaves them
  through the exception, after the store was already written.
\<close>

definition processMeetingBooked ::
  "agent \<Rightarrow> clock \<Rightarrow> CalendlyMeeting \<Rightarrow> local_storage \<Rightarrow> unit outcome \<times> local_storage"
where
  "processMeetingBooked ag clk mt ls =
     (let config = getCalendlyConfig ls;
          ls1 = storeMeeting clk mt ls
      in case ag MONITORING_MANAGER (MeetingBookedPrompt mt) of
           Throws msg \<Rightarrow> (Throws msg, ls1)
         | Returns r \<Rightarrow>
             (let ls2 = (if enablePreMeetingResearch config
                         then triggerPreMeetingResearch ag clk mt ls1 else ls1);
                  ls3 = (if preMeetingEmailEnabled config
                         then sendPreMeetingEmail clk mt ls2 else ls2)
              in (Returns (), ls3)))"

definition processMeetingCanceled ::
  "agent \<Rightarrow> clock \<Rightarrow> CalendlyMeeting \<Rightarrow> local_storage \<Rightarrow> unit outcome \<times> local_storage"
where
  "processMeetingCanceled ag clk mt ls =
     (let ls1 = updateMeetingStatus clk (eventId mt) ''canceled'' ls
      in case ag MONITORING_MANAGER (MeetingCanceledPrompt mt) of
           Throws msg \<Rightarrow> (Throws msg, ls1)
         | Returns r \<Rightarrow> (Returns (), ls1))"

definition processMeetingRescheduled ::
  "agent \<Rightarrow> clock \<Rightarrow> CalendlyMeeting \<Rightarrow> local_storage \<Rightarrow> unit outcome \<times> local_storage"
where
  "processMeetingRescheduled ag clk mt ls =
     (let config = getCalendlyConfig ls;
          ls1 = updateMeeting clk mt ls
      in case ag MONITORING_MANAGER (MeetingRescheduledPrompt mt) of
           Throws msg \<Rightarrow> (Throws msg, ls1)
         | Returns r \<Rightarrow>
             (let ls2 = (if enablePreMeetingResearch config
                         then triggerPreMeetingResearch ag clk mt ls1 else ls1)
              in (Returns (), ls2)))"

section \<open>Webhook handlers\<close>

text \<open>
  What a handler returns: \<open>success\<close> and, according to the handler, \<open>message\<close>,
  \<open>data\<close>, \<open>error\<close>, \<open>analysis\<close>, \<open>classification\<close>, \<open>redirect_url\<close>; an
  absent key is \<open>None\<close>.
\<close>

record webhook_result =
  success :: bool
  wr_message :: "string option"
  wr_data :: "agent_response option"
  wr_error :: "string option"
  wr_analysis :: "agent_result option"
  wr_classification :: "agent_result option"
  redirect_url :: "string option"

definition succeeded :: "string \<Rightarrow> webhook_result" where
  "succeeded msg =
     \<lparr>success = True, wr_message = Some msg, wr_data = None, wr_error = None,
      wr_analysis = None, wr_classification = None, redirect_url = None\<rparr>"

definition failed :: "string \<Rightarrow> string \<Rightarrow> webhook_result" where
  "failed msg err =
     \<lparr>success = False, wr_message = Some msg, wr_data = None, wr_error = Some err,
      wr_analysis = None, wr_classification = None, redirect_url = None\<rparr>"

definition storeMeetingEvent :: "clock \<Rightarrow> meeting_data \<Rightarrow> local_storage \<Rightarrow> local_storage" where
  "storeMeetingEvent clk d ls = ls\<lparr>meetings := meetings ls @ [(d, now_ms clk)]\<rparr>"

definition storeTranscriptAnalysis :: "transcript_analysis \<Rightarrow> local_storage \<Rightarrow> local_storage" where
  "storeTranscriptAnalysis d ls = ls\<lparr>transcripts := transcripts ls @ [d]\<rparr>"

definition storeEmailResponse :: "email_response \<Rightarrow> local_storage \<Rightarrow> local_storage" where
  "storeEmailResponse d ls = ls\<lparr>email_responses := email_responses ls @ [d]\<rparr>"

definition updateVoiceLibrary :: "clock \<Rightarrow> string list \<Rightarrow> local_storage \<Rightarrow> local_storage" where
  "updateVoiceLibrary clk phrases ls =
     (let library =
            fold (\<lambda>ph lib.
                    if find (\<lambda>p. phrase p = ph) lib = None
                    then lib @ [\<lparr>phrase = ph, success_rate = 0, use_count = 1,
                                 added_at = now_ms clk\<rparr>]
                    else lib)
                 phrases (voice_library ls)
      in ls\<lparr>voice_library := library\<rparr>)"

text \<open>\<open>handleApproval\<close>: the entry for the outreach id is assigned, whatever was there.\<close>

definition handleApproval ::
  "clock \<Rightarrow> string \<Rightarrow> string \<Rightarrow> string \<Rightarrow> local_storage \<Rightarrow> local_storage"
where
  "handleApproval clk outreachId st approvedBy ls =
     ls\<lparr>approvals := (approvals ls)(outreachId \<mapsto> Decision st approvedBy (now_ms clk))\<rparr>"

text \<open>The placeholder \<open>sendSlackNotification\<close> of the handlers' file: a console line.\<close>

definition sendSlackNotification :: "string \<Rightarrow> string \<Rightarrow> local_storage \<Rightarrow> local_storage" where
  "sendSlackNotification channel msg ls = ls\<lparr>slack_console := slack_console ls @ [(channel, msg)]\<rparr>"

definition handleCalendlyWebhook ::
  "agent \<Rightarrow> clock \<Rightarrow> CalendlyWebhookPayload \<Rightarrow> local_storage \<Rightarrow> webhook_result \<times> local_storage"
where
  "handleCalendlyWebhook ag clk payload ls =
     (let meetingData =
            \<lparr>md_event_type = cw_event payload,
             md_invitee_name = inv_name (invitee (cw_payload payload)),
             md_invitee_email = inv_email (invitee (cw_payload payload)),
             md_meeting_type = et_name (event_type (cw_payload payload)),
             md_meeting_duration = et_duration (event_type (cw_payload payload)),
             md_start_time = start_time (scheduled_event (cw_payload payload)),
             md_end_time = end_time (scheduled_event (cw_payload payload)),
             md_timezone = inv_timezone (invitee (cw_payload payload)),
             md_status = (if inv_canceled (invitee (cw_payload payload))
                          then ''canceled'' else ''scheduled'')\<rparr>
      in case ag MONITORING_MANAGER (MeetingEventPrompt (cw_event payload) meetingData) of
           Throws msg \<Rightarrow> (failed ''Failed to process Calendly webhook'' msg, ls)
         | Returns response \<Rightarrow>
             ((succeeded ''Calendly webhook processed'')\<lparr>wr_data := Some response\<rparr>,
              storeMeetingEvent clk meetingData ls))"

definition handleOtterWebhook ::
  "agent \<Rightarrow> clock \<Rightarrow> OtterWebhookPayload \<Rightarrow> local_storage \<Rightarrow> webhook_result \<times> local_storage"
where
  "handleOtterWebhook ag clk payload ls =
     (case ag TRANSCRIPT_ANALYST
             (TranscriptPrompt (ot_title payload) (duration_seconds payload div 60)
                (map op_name (participants payload)) (transcript payload)) of
        Throws msg \<Rightarrow> (failed ''Failed to analyze transcript'' msg, ls)
      | Returns analysisResponse \<Rightarrow>
          (let ls1 = storeTranscriptAnalysis
                       \<lparr>ta_meeting_id = meeting_id payload, ta_title = ot_title payload,
                        ta_transcript = transcript payload,
                        ta_analysis = resp_result analysisResponse,
                        ta_timestamp = now_ms clk\<rparr> ls;
               ls2 = (case resp_result analysisResponse of
                        None \<Rightarrow> ls1
                      | Some res \<Rightarrow>
                          (case winning_phrases res of
                             None \<Rightarrow> ls1
                           | Some phrases \<Rightarrow> updateVoiceLibrary clk phrases ls1))
           in ((succeeded ''Transcript analyzed successfully'')
                 \<lparr>wr_analysis := resp_result analysisResponse\<rparr>, ls2)))"

text \<open>
  The action branch is entered when the type is \<open>block_actions\<close> and \<open>actions\<close> is
  present. With an empty \<open>actions\<close> array \<open>payload.actions[0]\<close> is \<open>undefined\<close> and
  reading its \<open>action_id\<close> raises a \<open>TypeError\<close>, which the handler's \<open>catch\<close>
  reports; the wording of that error belongs to the engine.
\<close>

definition TypeError_message :: string where
  "TypeError_message = ''TypeError: action is undefined''"

definition handleSlackInteraction ::
  "clock \<Rightarrow> SlackInteractionPayload \<Rightarrow> local_storage \<Rightarrow> webhook_result \<times> local_storage"
where
  "handleSlackInteraction clk payload ls =
     (case (if sp_type payload = ''block_actions'' then sp_actions payload else None) of
        None \<Rightarrow> (succeeded ''Interaction processed'', ls)
      | Some [] \<Rightarrow> (failed ''Failed to process Slack interaction'' TypeError_message, ls)
      | Some (action # rest) \<Rightarrow>
          if startsWith (sa_action_id action) ''approve_'' then
            (let outreachId = sa_value action
             in (succeeded ''Message approved and queued for sending'',
                 handleApproval clk outreachId ''approved'' (user_name (sp_user payload)) ls))
          else if startsWith (sa_action_id action) ''reject_'' then
            (let outreachId = sa_value action
             in (succeeded ''Message rejected'',
                 handleApproval clk outreachId ''rejected'' (user_name (sp_user payload)) ls))
          else if startsWith (sa_action_id action) ''edit_'' then
            (let outreachId = sa_value action
             in ((succeeded ''Edit in dashboard'')
                   \<lparr>redirect_url := Some (''/approval-queue?edit='' @ outreachId)\<rparr>, ls))
          else (succeeded ''Interaction processed'', ls))"

definition handleGmailResponse ::
  "agent \<Rightarrow> clock \<Rightarrow> GmailResponsePayload \<Rightarrow> local_storage \<Rightarrow> webhook_result \<times> local_storage"
where
  "handleGmailResponse ag clk payload ls =
     (let msg = gp_message payload in
      case ag RESPONSE_CLASSIFIER (ClassifyPrompt (gm_from msg) (gm_subject msg) (gm_body msg)) of
        Throws err \<Rightarrow> (failed ''Failed to classify email response'' err, ls)
      | Returns classificationResponse \<Rightarrow>
          (let ls1 = storeEmailResponse
                       \<lparr>er_message_id = gm_id msg, er_thread_id = gm_threadId msg,
                        er_from = gm_from msg,
                        er_classification = resp_result classificationResponse,
                        er_timestamp = gm_timestamp msg\<rparr> ls;
               ls2 = (if (case resp_result classificationResponse of
                            None \<Rightarrow> False
                          | Some res \<Rightarrow> classification res = Some ''positive'')
                      then sendSlackNotification ''#revenue-approvals''
                             (''Positive response received from '' @ gm_from msg @ ''!'') ls1
                      else ls1)
           in (\<lparr>success = True, wr_message = None, wr_data = None, wr_error = None,
                wr_analysis = None,
                wr_classification = resp_result classificationResponse,
                redirect_url = None\<rparr>, ls2)))"

subsection \<open>Webhook verification\<close>

definition verifyCalendlyWebhook :: "string \<Rightarrow> string \<Rightarrow> string \<Rightarrow> bool" where
  "verifyCalendlyWebhook payload signature secret = True"

definition verifyOtterWebhook :: "string \<Rightarrow> string \<Rightarrow> string \<Rightarrow> bool" where
  "verifyOtterWebhook payload signature secret = True"

definition verifySlackRequest :: "string \<Rightarrow> string \<Rightarrow> string \<Rightarrow> string \<Rightarrow> bool" where
  "verifySlackRequest timestamp signature body signingSecret = True"

section \<open>Webhook endpoints\<close>

datatype response_body = HandlerResult webhook_result | ErrorBody string "string option"

record http_response =
  http_status :: nat
  http_body :: response_body

text \<open>The outcome of decoding a textual body: the form field and \<open>JSON.parse\<close>.\<close>

datatype 'a decoded = MissingPayload | NotJson string | Parsed 'a

datatype slack_body = StringBody string | ObjectBody SlackInteractionPayload

record pubsub_data =
  pd_historyId :: "string option"
  pd_emailAddress :: "string option"

text \<open>
  What the endpoints take from their surroundings: the secrets of \<open>import.meta.env\<close>
  (empty when unset), \<open>JSON.stringify\<close> on each body type, the decoding of a
  form-encoded Slack body (\<open>URLSearchParams\<close>, \<open>JSON.parse\<close>) and of a Pub/Sub data
  field (\<open>atob\<close>, \<open>JSON.parse\<close>; a failure there is an exception), and
  \<open>toLocaleString\<close> on a date string.
\<close>

record env =
  VITE_CALENDLY_WEBHOOK_SECRET :: string
  VITE_OTTER_WEBHOOK_SECRET :: string
  VITE_SLACK_SIGNING_SECRET :: string
  stringify_calendly :: "CalendlyWebhookPayload \<Rightarrow> string"
  stringify_otter :: "OtterWebhookPayload \<Rightarrow> string"
  stringify_slack :: "SlackInteractionPayload \<Rightarrow> string"
  decode_slack_form :: "string \<Rightarrow> SlackInteractionPayload decoded"
  decode_pubsub :: "string \<Rightarrow> pubsub_data outcome"
  toLocaleString :: "string \<Rightarrow> string"

definition internal_error :: "string \<Rightarrow> http_response" where
  "internal_error msg =
     \<lparr>http_status = 500, http_body = ErrorBody ''Internal server error'' (Some msg)\<rparr>"

text \<open>The \<open>CalendlyMeeting\<close> that the Calendly endpoint builds from the delivered body.\<close>

definition meeting_of :: "CalendlyWebhookPayload \<Rightarrow> CalendlyMeeting" where
  "meeting_of body =
     \<lparr>eventId = pl_event (cw_payload body),
      eventType = cw_event body,
      inviteeName = inv_name (invitee (cw_payload body)),
      inviteeEmail = inv_email (invitee (cw_payload body)),
      startTime_m = start_time (scheduled_event (cw_payload body)),
      endTime_m = end_time (scheduled_event (cw_payload body)),
      timezone = inv_timezone (invitee (cw_payload body)),
      status = (if inv_canceled (invitee (cw_payload body)) then ''canceled'' else ''scheduled''),
      meetingType = et_name (event_type (cw_payload body)),
      duration = et_duration (event_type (cw_payload body)),
      location_m = Some (location (scheduled_event (cw_payload body)))\<rparr>"

definition handleCalendlyWebhookEndpoint ::
  "env \<Rightarrow> agent \<Rightarrow> clock \<Rightarrow> CalendlyWebhookPayload \<Rightarrow> (string \<rightharpoonup> string) \<Rightarrow> local_storage
     \<Rightarrow> http_response \<times> local_storage"
where
  "handleCalendlyWebhookEndpoint e ag clk body headers ls =
     (let signature = or_default (headers ''calendly-webhook-signature'') [];
          secret = VITE_CALENDLY_WEBHOOK_SECRET e
      in if secret \<noteq> [] \<and> \<not> verifyCalendlyWebhook (stringify_calendly e body) signature secret
         then (\<lparr>http_status = 401, http_body = ErrorBody ''Invalid webhook signature'' None\<rparr>, ls)
         else
           (let (result, ls1) = handleCalendlyWebhook ag clk body ls;
                mt = meeting_of body;
                ok = \<lparr>http_status = 200, http_body = HandlerResult result\<rparr>
            in if cw_event body = ''invitee.created'' then
                 (case processMeetingBooked ag clk mt ls1 of
                    (Throws msg, ls2) \<Rightarrow> (internal_error msg, ls2)
                  | (Returns u, ls2) \<Rightarrow>
                      (ok, sendMeetingBookedNotification (toLocaleString e) clk
                             \<lparr>mb_accountName = at_index (split_on CHR ''@'' (inviteeEmail mt)) 1,
                              mb_contactName = inviteeName mt,
                              mb_meetingTime = startTime_m mt,
                              mb_meetingType = meetingType mt,
                              mb_duration = duration mt\<rparr> ls2))
               else if cw_event body = ''invitee.canceled'' then
                 (case processMeetingCanceled ag clk mt ls1 of
                    (Throws msg, ls2) \<Rightarrow> (internal_error msg, ls2)
                  | (Returns u, ls2) \<Rightarrow> (ok, ls2))
               else if cw_event body = ''invitee.rescheduled'' then
                 (case processMeetingRescheduled ag clk mt ls1 of
                    (Throws msg, ls2) \<Rightarrow> (internal_error msg, ls2)
                  | (Returns u, ls2) \<Rightarrow> (ok, ls2))
               else (ok, ls1)))"

definition handleOtterWebhookEndpoint ::
  "env \<Rightarrow> agent \<Rightarrow> clock \<Rightarrow> OtterWebhookPayload \<Rightarrow> (string \<rightharpoonup> string) \<Rightarrow> local_storage
     \<Rightarrow> http_response \<times> local_storage"
where
  "handleOtterWebhookEndpoint e ag clk body headers ls =
     (let signature = or_default (headers ''x-otter-signature'') [];
          secret = VITE_OTTER_WEBHOOK_SECRET e
      in if secret \<noteq> [] \<and> \<not> verifyOtterWebhook (stringify_otter e body) signature secret
         then (\<lparr>http_status = 401, http_body = ErrorBody ''Invalid webhook signature'' None\<rparr>, ls)
         else
           (let (result, ls1) = handleOtterWebhook ag clk body ls
            in (\<lparr>http_status = 200, http_body = HandlerResult result\<rparr>, ls1)))"

definition handleSlackInteractionEndpoint ::
  "env \<Rightarrow> clock \<Rightarrow> slack_body \<Rightarrow> (string \<rightharpoonup> string) \<Rightarrow> local_storage
     \<Rightarrow> http_response \<times> local_storage"
where
  "handleSlackInteractionEndpoint e clk body headers ls =
     (let parsed = (case body of
                      StringBody text \<Rightarrow> decode_slack_form e text
                    | ObjectBody p \<Rightarrow> Parsed p)
      in case parsed of
           MissingPayload \<Rightarrow>
             (\<lparr>http_status = 400, http_body = ErrorBody ''Missing payload'' None\<rparr>, ls)
         | NotJson msg \<Rightarrow> (internal_error msg, ls)
         | Parsed payload \<Rightarrow>
             (let timestamp = or_default (headers ''x-slack-request-timestamp'') [];
                  signature = or_default (headers ''x-slack-signature'') [];
                  signingSecret = VITE_SLACK_SIGNING_SECRET e
              in if signingSecret \<noteq> [] \<and>
                    \<not> verifySlackRequest timestamp signature
                        (case body of StringBody text \<Rightarrow> text
                                    | ObjectBody p \<Rightarrow> stringify_slack e p)
                        signingSecret
                 then (\<lparr>http_status = 401,
                        http_body = ErrorBody ''Invalid request signature'' None\<rparr>, ls)
                 else
                   (let (result, ls1) = handleSlackInteraction clk payload ls
                    in (\<lparr>http_status = 200, http_body = HandlerResult result\<rparr>, ls1))))"

text \<open>
  The reply that the Gmail endpoint hands to the handler: the fixed sample message of the
  source, with the history id and the message id taken from the decoded notification.
\<close>

definition emailPayload_of :: "pubsub_data \<Rightarrow> clock \<Rightarrow> GmailResponsePayload" where
  "emailPayload_of decodedData clk =
     \<lparr>historyId = or_default (pd_historyId decodedData) [],
      gp_message =
        \<lparr>gm_id = or_default (pd_emailAddress decodedData) [],
         gm_threadId = [],
         gm_from = ''prospect@example.com'',
         gm_to = ''you@yourcompany.com'',
         gm_subject = ''Re: Your outreach'',
         gm_body = ''Thanks for reaching out! I'' @ [CHR 0x27] @ ''d love to learn more.'',
         gm_timestamp = now_ms clk,
         gm_inReplyTo = Some []\<rparr>\<rparr>"

text \<open>
  The Gmail endpoint: \<open>messageData\<close> is \<open>body.message?.data\<close>.
\<close>

definition handleGmailWebhookEndpoint ::
  "env \<Rightarrow> agent \<Rightarrow> clock \<Rightarrow> string option \<Rightarrow> (string \<rightharpoonup> string) \<Rightarrow> local_storage
     \<Rightarrow> http_response \<times> local_storage"
where
  "handleGmailWebhookEndpoint e ag clk messageData headers ls =
     (if or_default messageData [] = [] then
        (\<lparr>http_status = 400, http_body = ErrorBody ''Invalid Gmail push notification'' None\<rparr>, ls)
      else
        (case decode_pubsub e (or_default messageData []) of
           Throws msg \<Rightarrow> (internal_error msg, ls)
         | Returns decodedData \<Rightarrow>
             (let emailPayload = emailPayload_of decodedData clk;
                  (result, ls1) = handleGmailResponse ag clk emailPayload ls;
                  ls2 = (case wr_classification result of
                           None \<Rightarrow> ls1
                         | Some cls \<Rightarrow>
                             if classification cls = Some ''positive'' then
                               sendPositiveResponseNotification clk
                                 \<lparr>pr_from = gm_from (gp_message emailPayload),
                                  pr_accountName =
                                    at_index (split_on CHR ''@''
                                      (gm_from (gp_message emailPayload))) 1,
                                  pr_subject = gm_subject (gp_message emailPayload),
                                  pr_preview = gm_body (gp_message emailPayload),
                                  pr_signals =
                                    Some (case key_signals cls of None \<Rightarrow> [] | Some ks \<Rightarrow> ks)\<rparr>
                                 ls1
                             else ls1)
              in (\<lparr>http_status = 200, http_body = HandlerResult result\<rparr>, ls2))))"

section \<open>Notions used in the statements\<close>

text \<open>
  The effective limit in the specification's words: the smaller of the warmup limit and
  the daily limit when warmup is enabled, the daily limit otherwise.
\<close>

definition effectiveLimit :: "bool \<Rightarrow> int \<Rightarrow> int \<Rightarrow> int" where
  "effectiveLimit warmup_enabled warmup_limit daily_limit =
     (if warmup_enabled then min warmup_limit daily_limit else daily_limit)"

text \<open>
  The number of stored Slack notifications of a type, as \<open>getSlackStats\<close> counts them.
\<close>

definition count_notifications :: "string \<Rightarrow> local_storage \<Rightarrow> nat" where
  "count_notifications ty ls = length (filter (\<lambda>n. n_type n = ty) (slack_notifications ls))"

text \<open>The interaction Slack delivers when the user presses a button of a message.\<close>

definition click :: "slack_user \<Rightarrow> button \<Rightarrow> SlackInteractionPayload" where
  "click u b =
     \<lparr>sp_type = ''block_actions'', sp_user = u,
      sp_actions = Some [\<lparr>sa_action_id = action_id b, sa_value = btn_value b,
                          sa_type = ''button''\<rparr>]\<rparr>"

text \<open>The buttons of a message's action blocks, in order.\<close>

definition buttons_of :: "block list \<Rightarrow> button list" where
  "buttons_of blocks = concat (map (\<lambda>b. case b of Actions bs \<Rightarrow> bs | _ \<Rightarrow> []) blocks)"

section \<open>Sample inputs\<close>

text \<open>
  Two readings of a clock in UTC on 20 January 2026, at 10:30 and 10:31 with zero seconds;
  the day starts at 1768867200000.
\<close>

definition utc_tomorrow_at :: "int \<Rightarrow> int \<Rightarrow> int \<Rightarrow> int option" where
  "utc_tomorrow_at day_start h m =
     (let t = day_start + 86400000 + h * 3600000 + m * 60000
      in if valid_time t then Some t else None)"

definition sample_clock :: clock where
  "sample_clock =
     \<lparr>now_ms = 1768905000000, date_string = ''Tue Jan 20 2026'', hours = 10, minutes = 30,
      tomorrow_at = utc_tomorrow_at 1768867200000\<rparr>"

definition later_clock :: clock where
  "later_clock =
     \<lparr>now_ms = 1768905060000, date_string = ''Tue Jan 20 2026'', hours = 10, minutes = 31,
      tomorrow_at = utc_tomorrow_at 1768867200000\<rparr>"

definition ok_response :: agent_response where
  "ok_response = \<lparr>resp_status = ''success'', resp_result = None, resp_message = None\<rparr>"

definition ok_agent :: agent where
  "ok_agent aid p = Returns ok_response"

definition classifier_agent :: "string \<Rightarrow> agent" where
  "classifier_agent label aid p =
     Returns \<lparr>resp_status = ''success'',
              resp_result = Some \<lparr>classification = Some label, key_signals = None,
                                  winning_phrases = None, other_content = []\<rparr>,
              resp_message = None\<rparr>"

definition sample_env :: env where
  "sample_env =
     \<lparr>VITE_CALENDLY_WEBHOOK_SECRET = ''whsec_calendly'',
      VITE_OTTER_WEBHOOK_SECRET = ''whsec_otter'',
      VITE_SLACK_SIGNING_SECRET = ''whsec_slack'',
      stringify_calendly = (\<lambda>b. ''{}''), stringify_otter = (\<lambda>b. ''{}''),
      stringify_slack = (\<lambda>b. ''{}''),
      decode_slack_form = (\<lambda>t. MissingPayload),
      decode_pubsub = (\<lambda>t. Returns \<lparr>pd_historyId = Some ''42'',
                                        pd_emailAddress = Some ''me@yourcompany.com''\<rparr>),
      toLocaleString = (\<lambda>t. t)\<rparr>"

definition bad_signature :: "string \<rightharpoonup> string" where
  "bad_signature =
     [''calendly-webhook-signature'' \<mapsto> ''forged'', ''x-otter-signature'' \<mapsto> ''forged'',
      ''x-slack-signature'' \<mapsto> ''forged'', ''x-slack-request-timestamp'' \<mapsto> ''0'']"

definition sample_booking :: "string \<Rightarrow> string \<Rightarrow> string \<Rightarrow> CalendlyWebhookPayload" where
  "sample_booking ev st en =
     \<lparr>cw_event = ev,
      cw_payload =
        \<lparr>pl_event = ''evt_1'',
         invitee = \<lparr>inv_name = ''A'', inv_email = ''a@x.com'', inv_timezone = ''UTC'',
                    inv_created_at = ''2026-01-19T09:00:00Z'', inv_canceled = False\<rparr>,
         event_type = \<lparr>et_name = ''Intro call'', et_duration = 30\<rparr>,
         scheduled_event =
           \<lparr>start_time = st, end_time = en,
            location = \<lparr>loc_type = ''zoom'', loc_location = None\<rparr>\<rparr>\<rparr>\<rparr>"

definition sample_transcript :: OtterWebhookPayload where
  "sample_transcript =
     \<lparr>meeting_id = ''m1'', ot_title = ''Intro call'', transcript = ''A: hello'',
      ot_summary = None, participants = [], ot_start_time = ''2026-01-20T10:00:00Z'',
      ot_end_time = ''2026-01-20T10:30:00Z'', duration_seconds = 1800\<rparr>"

definition sample_user :: slack_user where
  "sample_user = \<lparr>user_id = ''U1'', username = ''rev'', user_name = ''Rev Ops''\<rparr>"

definition other_user :: slack_user where
  "other_user = \<lparr>user_id = ''U2'', username = ''lead'', user_name = ''Sales Lead''\<rparr>"

definition sample_notification :: ApprovalNotification where
  "sample_notification =
     \<lparr>an_outreachId = ''out_123'', an_accountName = ''Acme Corp'', an_contactName = ''A'',
      an_subject = ''Hello'', an_preview = ''Hi A'', an_icpScore = Some 80,
      an_channel = None\<rparr>"

definition sample_request :: ConnectionRequest where
  "sample_request =
     \<lparr>cr_profileUrl = ''https://linkedin.example/in/a'', cr_firstName = ''A'',
      cr_lastName = ''B'', cr_headline = None, cr_message = ''Hello''\<rparr>"

definition sample_inmail :: InMailMessage where
  "sample_inmail =
     \<lparr>im_profileUrl = ''https://linkedin.example/in/a'', im_subject = ''Hello'',
      im_body = ''Hi A''\<rparr>"

definition uncapped_storage :: local_storage where
  "uncapped_storage =
     empty_storage
       \<lparr>linkedin_config := Some (DEFAULT_LINKEDIN_CONFIG\<lparr>safetyLimitsEnabled := False\<rparr>),
        linkedin_connections := [''Tue Jan 20 2026'' \<mapsto> 15]\<rparr>"

definition capped_storage :: local_storage where
  "capped_storage =
     empty_storage
       \<lparr>linkedin_connections := [''Tue Jan 20 2026'' \<mapsto> 15],
        linkedin_last_action := Some 1768905000000\<rparr>"

definition after_connection :: local_storage where
  "after_connection = snd (sendConnectionRequest ok_agent sample_clock empty_storage sample_request)"

definition nine_sent :: local_storage where
  "nine_sent = empty_storage\<lparr>gmail_first_send_date := Some 1768900000000,
                               gmail_sent := [''Tue Jan 20 2026'' \<mapsto> 9]\<rparr>"

text \<open>A store whose only entry is the date of the first send.\<close>

definition first_send_at :: "int \<Rightarrow> local_storage" where
  "first_send_at t = empty_storage\<lparr>gmail_first_send_date := Some t\<rparr>"

text \<open>
  A LinkedIn configuration whose window is written \<open>9am\<close> to \<open>5pm\<close>, with today's
  fifteen connection requests used up.
\<close>

definition informal_window_storage :: local_storage where
  "informal_window_storage =
     empty_storage
       \<lparr>linkedin_config :=
          Some (DEFAULT_LINKEDIN_CONFIG
                  \<lparr>li_sendingSchedule := \<lparr>startTime = ''9am'', endTime = ''5pm''\<rparr>\<rparr>),
        linkedin_connections := [''Tue Jan 20 2026'' \<mapsto> 15]\<rparr>"

text \<open>A delay of 200000000000 minutes, beyond the range of dates.\<close>

definition far_delay_storage :: local_storage where
  "far_delay_storage =
     empty_storage
       \<lparr>linkedin_config := Some (DEFAULT_LINKEDIN_CONFIG\<lparr>actionDelayMinutes := 200000000000\<rparr>),
        linkedin_last_action := Some 1768905000000\<rparr>"

definition fourteen_connections :: local_storage where
  "fourteen_connections =
     empty_storage\<lparr>linkedin_connections := [''Tue Jan 20 2026'' \<mapsto> 14]\<rparr>"

definition fifteenth_sent :: local_storage where
  "fifteenth_sent =
     snd (sendConnectionRequest ok_agent sample_clock fourteen_connections sample_request)"

definition rescheduled_delivery :: CalendlyWebhookPayload where
  "rescheduled_delivery =
     sample_booking ''invitee.rescheduled'' ''2026-01-21T10:00:00Z'' ''2026-01-21T10:30:00Z''"

definition created_delivery :: CalendlyWebhookPayload where
  "created_delivery =
     sample_booking ''invitee.created'' ''2026-01-20T10:00:00Z'' ''2026-01-20T10:30:00Z''"

definition booked_storage :: local_storage where
  "booked_storage =
     empty_storage\<lparr>calendly_meetings :=
       [\<lparr>meeting = meeting_of created_delivery, createdAt = Some 1768905000000,
         updatedAt = None\<rparr>]\<rparr>"

definition muted_storage :: local_storage where
  "muted_storage =
     empty_storage
       \<lparr>slack_config :=
          Some (DEFAULT_SLACK_CONFIG
                  \<lparr>sc_enableNotifications :=
                     \<lparr>newOutreachStaged = True, positiveResponses = False,
                      meetingsBooked = True, dailyDigest = True\<rparr>\<rparr>)\<rparr>"

section \<open>Properties\<close>

subsection \<open>Auxiliary facts\<close>

lemma currentTime_sample [simp]: "currentTime sample_clock = ''10:30''"
  by (simp add: currentTime_def sample_clock_def padStart_def digit_char_def)

lemma currentTime_later [simp]: "currentTime later_clock = ''10:31''"
  by (simp add: currentTime_def later_clock_def padStart_def digit_char_def)

lemma canPerformActionNow_iff:
  "canPerformActionNow clk ls =
     (case getLastActionTime ls of
        None \<Rightarrow> True
      | Some t \<Rightarrow> now_ms clk - t \<ge> actionDelayMinutes (getLinkedInConfig ls) * 60 * 1000)"
  by (auto simp: canPerformActionNow_def Let_def field_simps split: option.splits)

lemma sample_clock_fields [simp]:
  "now_ms sample_clock = 1768905000000" "date_string sample_clock = ''Tue Jan 20 2026''"
  "now_ms later_clock = 1768905060000" "date_string later_clock = ''Tue Jan 20 2026''"
  by (simp_all add: sample_clock_def later_clock_def)

lemma sample_tomorrow_at [simp]:
  "tomorrow_at sample_clock 9 0 = Some 1768986000000"
  "tomorrow_at later_clock 9 0 = Some 1768986000000"
  by (simp_all add: sample_clock_def later_clock_def utc_tomorrow_at_def valid_time_def)

text \<open>Evaluation of the window start.\<close>

lemma trimStart_no_space: "white_space_length s = 0 \<Longrightarrow> trimStart s = s"
  by (subst trimStart.simps) simp

lemma parse_nine:
  "parseInt (at_index (split_on CHR '':'' ''09:00'') 0) = Some 9"
  "parseInt (at_index (split_on CHR '':'' ''09:00'') 1) = Some 0"
  by (simp_all add: at_index_def parseInt_def trimStart_no_space white_space_length_def
      digit_value_def Let_def del: trimStart.simps)

lemma parse_9am:
  "parseInt (at_index (split_on CHR '':'' ''9am'') 0) = Some 9"
  "parseInt (at_index (split_on CHR '':'' ''9am'') 1) = None"
  by (simp_all add: at_index_def parseInt_def trimStart_no_space white_space_length_def
      digit_value_def Let_def del: trimStart.simps)

lemma getNextWindow_default:
  assumes "linkedin_config ls = None" and "tomorrow_at clk 9 0 = Some t"
  shows "getNextWindow clk ls = Returns (AtInstant t)"
proof -
  have s: "startTime (li_sendingSchedule (getLinkedInConfig ls)) = ''09:00''"
    using assms(1) by (simp add: getLinkedInConfig_def DEFAULT_LINKEDIN_CONFIG_def)
  show ?thesis
    unfolding getNextWindow_def Let_def s parse_nine
    using assms(2) by simp
qed

lemma getNextWindow_informal:
  "getNextWindow clk informal_window_storage = Throws Invalid_time_value"
proof -
  have s: "startTime (li_sendingSchedule (getLinkedInConfig informal_window_storage)) = ''9am''"
    by (simp add: getLinkedInConfig_def informal_window_storage_def DEFAULT_LINKEDIN_CONFIG_def)
  show ?thesis
    unfolding getNextWindow_def Let_def s parse_9am by simp
qed

subsection \<open>Warmup schedule\<close>

lemma ceiling_days_le:
  "\<lceil>real_of_int e / (1000 * 60 * 60 * 24)\<rceil> < k + 1 \<longleftrightarrow> e \<le> k * 86400000"
proof -
  have "\<lceil>real_of_int e / 86400000\<rceil> \<le> k \<longleftrightarrow> real_of_int e / 86400000 \<le> real_of_int k"
    by (rule ceiling_le_iff)
  also have "\<dots> \<longleftrightarrow> real_of_int e \<le> real_of_int (k * 86400000)"
    by (simp add: field_simps)
  also have "\<dots> \<longleftrightarrow> e \<le> k * 86400000"
    by (rule of_int_le_iff)
  finally have "\<lceil>real_of_int e / 86400000\<rceil> \<le> k \<longleftrightarrow> e \<le> k * 86400000" .
  moreover have "\<lceil>real_of_int e / 86400000\<rceil> < k + 1 \<longleftrightarrow> \<lceil>real_of_int e / 86400000\<rceil> \<le> k"
    by arith
  ultimately show ?thesis by simp
qed

lemma getAccountAgeInDays_stored:
  "gmail_first_send_date ls = Some firstSend \<Longrightarrow>
   getAccountAgeInDays clk ls =
     (\<lceil>real_of_int \<bar>now_ms clk - firstSend\<bar> / (1000 * 60 * 60 * 24)\<rceil>, ls)"
  by (simp add: getAccountAgeInDays_def Let_def)

text \<open>
  Claim C4. The warmup limit as a function of the time elapsed since the first send.
  \<open>getAccountAgeInDays\<close> rounds the elapsed days up, so with a stored first-send date
  the limit is 10 up to six elapsed days, 25 up to thirteen, 50 up to twenty and 100
  after that: each step is taken one day minus a millisecond before the elapsed days
  reach 7, 14 and 21. The first call on a store without a first-send date records the
  current instant there and gives 10; no other call changes the store.
\<close>

theorem warmup_limit_by_elapsed_time:
  "getWarmupLimit clk ls =
     (case gmail_first_send_date ls of
        None \<Rightarrow> (10, ls\<lparr>gmail_first_send_date := Some (now_ms clk)\<rparr>)
      | Some firstSend \<Rightarrow>
          (let elapsed = \<bar>now_ms clk - firstSend\<bar>
           in if elapsed \<le> 6 * 86400000 then 10
              else if elapsed \<le> 13 * 86400000 then 25
              else if elapsed \<le> 20 * 86400000 then 50
              else 100, ls))"
proof (cases "gmail_first_send_date ls")
  case None
  then show ?thesis
    by (simp add: getWarmupLimit_def getAccountAgeInDays_def)
next
  case (Some firstSend)
  show ?thesis
    using ceiling_days_le [of "\<bar>now_ms clk - firstSend\<bar>" 6]
      ceiling_days_le [of "\<bar>now_ms clk - firstSend\<bar>" 13]
      ceiling_days_le [of "\<bar>now_ms clk - firstSend\<bar>" 20]
    by (simp add: Some getWarmupLimit_def getAccountAgeInDays_stored [OF Some] Let_def)
qed

text \<open>
  Six days and one millisecond after the first send the age is 7 and the limit 25; at
  exactly six days the age is 6 and the limit 10.
\<close>

theorem warmup_limit_after_six_days:
  "now_ms sample_clock - 1768386599999 = 6 * 86400000 + 1 \<and>
   fst (getAccountAgeInDays sample_clock (first_send_at 1768386599999)) = 7 \<and>
   fst (getWarmupLimit sample_clock (first_send_at 1768386599999)) = 25 \<and>
   now_ms sample_clock - 1768386600000 = 6 * 86400000 \<and>
   fst (getAccountAgeInDays sample_clock (first_send_at 1768386600000)) = 6 \<and>
   fst (getWarmupLimit sample_clock (first_send_at 1768386600000)) = 10"
proof -
  have f: "gmail_first_send_date (first_send_at t) = Some t" for t
    by (simp add: first_send_at_def)
  have a: "fst (getAccountAgeInDays sample_clock (first_send_at 1768386599999)) = 7"
    by (simp add: getAccountAgeInDays_stored [OF f] ceiling_unique)
  have b: "fst (getAccountAgeInDays sample_clock (first_send_at 1768386600000)) = 6"
    by (simp add: getAccountAgeInDays_stored [OF f])
  show ?thesis
    using warmup_limit_by_elapsed_time [of sample_clock "first_send_at 1768386599999"]
      warmup_limit_by_elapsed_time [of sample_clock "first_send_at 1768386600000"] a b
    by (simp add: f Let_def)
qed

subsection \<open>LinkedIn with the safety limits switched off\<close>

lemma li_denied_with_eq:
  "li_denied_with err h = li_denied err' (Some w) \<longleftrightarrow> h = Returns w \<and> err = err'"
  by (cases h) (auto simp: li_denied_with_def li_denied_def)

lemma li_denied_with_failure [simp]: "\<not> li_success (li_denied_with err h)"
  by (cases h) (simp_all add: li_denied_with_def li_denied_def)

lemma li_denied_failure [simp]: "\<not> li_success (li_denied err h)"
  by (simp add: li_denied_def)

text \<open>
  Claim C10. When the LinkedIn configuration has \<open>safetyLimitsEnabled\<close> false,
  \<open>canPerformAction\<close> answers true for both action kinds whatever today's counters
  hold, neither \<open>sendConnectionRequest\<close> nor \<open>sendInMail\<close> gives the daily-limit
  denial, whatever the hint, and their results do not depend on the counters: the daily
  cap is not enforced in that configuration.
\<close>

theorem safety_limits_disabled_no_daily_cap:
  assumes "\<not> safetyLimitsEnabled (getLinkedInConfig ls)"
  shows "canPerformAction clk ls connection \<and> canPerformAction clk ls inmail \<and>
         fst (sendConnectionRequest ag clk ls request) \<noteq>
           li_denied ''Daily connection limit reached'' (Some hint) \<and>
         fst (sendInMail ag clk ls im) \<noteq>
           li_denied ''Daily InMail limit reached'' (Some hint) \<and>
         fst (sendConnectionRequest ag clk
                (ls\<lparr>linkedin_connections := connections, linkedin_inmails := inmails\<rparr>) request) =
           fst (sendConnectionRequest ag clk ls request) \<and>
         fst (sendInMail ag clk
                (ls\<lparr>linkedin_connections := connections, linkedin_inmails := inmails\<rparr>) im) =
           fst (sendInMail ag clk ls im)"
proof -
  let ?ls' = "ls\<lparr>linkedin_connections := connections, linkedin_inmails := inmails\<rparr>"
  have c: "canPerformAction clk ls connection" and i: "canPerformAction clk ls inmail"
    using assms by (simp_all add: canPerformAction_def)
  have cfg: "getLinkedInConfig ?ls' = getLinkedInConfig ls"
    by (simp add: getLinkedInConfig_def)
  have c': "canPerformAction clk ?ls' connection" and i': "canPerformAction clk ?ls' inmail"
    using assms by (simp_all add: canPerformAction_def cfg)
  have w: "isWithinLinkedInWindow clk ?ls' = isWithinLinkedInWindow clk ls"
    by (simp add: isWithinLinkedInWindow_def cfg)
  have n: "canPerformActionNow clk ?ls' = canPerformActionNow clk ls"
    by (simp add: canPerformActionNow_def cfg getLastActionTime_def)
  have nw: "getNextWindow clk ?ls' = getNextWindow clk ls"
    by (simp add: getNextWindow_def cfg)
  have na: "getNextAvailableTime clk ?ls' = getNextAvailableTime clk ls"
    by (simp add: getNextAvailableTime_def cfg getLastActionTime_def)
  have "fst (sendConnectionRequest ag clk ls request) \<noteq>
           li_denied ''Daily connection limit reached'' (Some hint)"
    using c by (simp add: sendConnectionRequest_def li_denied_with_eq Let_def)
      (simp add: li_denied_def split: outcome.splits)
  moreover have "fst (sendInMail ag clk ls im) \<noteq>
           li_denied ''Daily InMail limit reached'' (Some hint)"
    using i by (simp add: sendInMail_def li_denied_with_eq Let_def)
      (simp add: li_denied_def split: outcome.splits)
  moreover have "fst (sendConnectionRequest ag clk ?ls' request) =
           fst (sendConnectionRequest ag clk ls request)"
    using c c' by (simp add: sendConnectionRequest_def w n nw na Let_def split: outcome.splits)
  moreover have "fst (sendInMail ag clk ?ls' im) = fst (sendInMail ag clk ls im)"
    using i i' by (simp add: sendInMail_def w n nw na Let_def split: outcome.splits)
  ultimately show ?thesis using c i by simp
qed

text \<open>
  At a store whose counter already equals the limit of 15, the request is sent and the
  counter moves to 16.
\<close>

theorem safety_limits_disabled_witness:
  "\<not> safetyLimitsEnabled (getLinkedInConfig uncapped_storage) \<and>
   fst (getTodayLinkedInStats sample_clock uncapped_storage) = 15 \<and>
   dailyConnectionLimit (getLinkedInConfig uncapped_storage) = 15 \<and>
   canPerformAction sample_clock uncapped_storage connection \<and>
   li_success (fst (sendConnectionRequest ok_agent sample_clock uncapped_storage sample_request)) \<and>
   fst (getTodayLinkedInStats sample_clock
          (snd (sendConnectionRequest ok_agent sample_clock uncapped_storage sample_request))) = 16"
proof -
  have off: "\<not> safetyLimitsEnabled (getLinkedInConfig uncapped_storage)"
    by (simp add: getLinkedInConfig_def uncapped_storage_def empty_storage_def
        DEFAULT_LINKEDIN_CONFIG_def)
  have cfg: "getLinkedInConfig uncapped_storage =
      DEFAULT_LINKEDIN_CONFIG\<lparr>safetyLimitsEnabled := False\<rparr>"
    by (simp add: getLinkedInConfig_def uncapped_storage_def empty_storage_def)
  have can: "canPerformAction sample_clock uncapped_storage connection"
    using safety_limits_disabled_no_daily_cap [OF off] by simp
  have win: "isWithinLinkedInWindow sample_clock uncapped_storage"
    by (simp add: isWithinLinkedInWindow_def cfg DEFAULT_LINKEDIN_CONFIG_def)
  have now: "canPerformActionNow sample_clock uncapped_storage"
    by (simp add: canPerformActionNow_iff getLastActionTime_def uncapped_storage_def
        empty_storage_def)
  have stats: "fst (getTodayLinkedInStats sample_clock uncapped_storage) = 15"
    by (simp add: getTodayLinkedInStats_def uncapped_storage_def empty_storage_def)
  have send:
    "li_success (fst (sendConnectionRequest ok_agent sample_clock uncapped_storage
                        sample_request)) \<and>
     fst (getTodayLinkedInStats sample_clock
            (snd (sendConnectionRequest ok_agent sample_clock uncapped_storage
                    sample_request))) = 16"
    using can win now
    by (simp add: sendConnectionRequest_def ok_agent_def ok_response_def Let_def
        incrementActionCount_def updateLastActionTime_def storeLinkedInAction_def
        getTodayLinkedInStats_def uncapped_storage_def empty_storage_def)
  show ?thesis using off cfg can stats send by (simp add: DEFAULT_LINKEDIN_CONFIG_def)
qed

subsection \<open>LinkedIn action delay\<close>

lemma delay_denial_connection:
  assumes "getLastActionTime ls = Some t"
    and "now_ms clk - t < actionDelayMinutes (getLinkedInConfig ls) * 60 * 1000"
    and "canPerformAction clk ls connection" and "isWithinLinkedInWindow clk ls"
  shows "sendConnectionRequest ag clk ls request =
           (if valid_time (t + actionDelayMinutes (getLinkedInConfig ls) * 60 * 1000)
            then li_denied ''Action delay not met''
                   (Some (AtInstant (t + actionDelayMinutes (getLinkedInConfig ls) * 60 * 1000)))
            else li_denied Invalid_time_value None, ls)"
  using assms
  by (simp add: sendConnectionRequest_def canPerformActionNow_iff getNextAvailableTime_def
      toISOString_def li_denied_with_def Let_def)

lemma delay_denial_inmail:
  assumes "getLastActionTime ls = Some t"
    and "now_ms clk - t < actionDelayMinutes (getLinkedInConfig ls) * 60 * 1000"
    and "canPerformAction clk ls inmail" and "isWithinLinkedInWindow clk ls"
  shows "sendInMail ag clk ls im =
           (if valid_time (t + actionDelayMinutes (getLinkedInConfig ls) * 60 * 1000)
            then li_denied ''Action delay not met''
                   (Some (AtInstant (t + actionDelayMinutes (getLinkedInConfig ls) * 60 * 1000)))
            else li_denied Invalid_time_value None, ls)"
  using assms
  by (simp add: sendInMail_def canPerformActionNow_iff getNextAvailableTime_def
      toISOString_def li_denied_with_def Let_def)

lemma last_action_after_connection:
  "li_success (fst (sendConnectionRequest ag clk ls request)) \<Longrightarrow>
   getLastActionTime (snd (sendConnectionRequest ag clk ls request)) = Some (now_ms clk)"
  by (auto simp: sendConnectionRequest_def Let_def getLastActionTime_def
      incrementActionCount_def updateLastActionTime_def storeLinkedInAction_def
      split: if_splits outcome.splits)

lemma last_action_after_inmail:
  "li_success (fst (sendInMail ag clk ls im)) \<Longrightarrow>
   getLastActionTime (snd (sendInMail ag clk ls im)) = Some (now_ms clk)"
  by (auto simp: sendInMail_def Let_def getLastActionTime_def
      incrementActionCount_def updateLastActionTime_def storeLinkedInAction_def
      split: if_splits outcome.splits)

text \<open>
  Claim C5, as amended. The three checks of \<open>sendConnectionRequest\<close> and \<open>sendInMail\<close>
  run in the order daily cap, sending window, delay. When the last action lies less than
  \<open>actionDelayMinutes\<close> back, \<open>canPerformActionNow\<close> is false and
  \<open>getNextAvailableTime\<close> is \<open>toISOString\<close> of the last action's instant plus the delay.
  A request that passes the cap and the window checks is then denied, the store
  unchanged: with \<open>Action delay not met\<close> and that instant as \<open>scheduledFor\<close> when the
  instant is a valid date, and with the message of the error that \<open>toISOString\<close> throws,
  and no \<open>scheduledFor\<close>, when it is not. There is one last-action instant for the
  channel: a successful action of either kind sets it.
\<close>

theorem action_delay_denial:
  "(getLastActionTime ls = Some t \<and>
    now_ms clk - t < actionDelayMinutes (getLinkedInConfig ls) * 60 * 1000 \<longrightarrow>
      \<not> canPerformActionNow clk ls \<and>
      getNextAvailableTime clk ls =
        toISOString (t + actionDelayMinutes (getLinkedInConfig ls) * 60 * 1000) \<and>
      (canPerformAction clk ls connection \<and> isWithinLinkedInWindow clk ls \<longrightarrow>
         sendConnectionRequest ag clk ls request =
           (if valid_time (t + actionDelayMinutes (getLinkedInConfig ls) * 60 * 1000)
            then li_denied ''Action delay not met''
                   (Some (AtInstant (t + actionDelayMinutes (getLinkedInConfig ls) * 60 * 1000)))
            else li_denied Invalid_time_value None, ls)) \<and>
      (canPerformAction clk ls inmail \<and> isWithinLinkedInWindow clk ls \<longrightarrow>
         sendInMail ag clk ls im =
           (if valid_time (t + actionDelayMinutes (getLinkedInConfig ls) * 60 * 1000)
            then li_denied ''Action delay not met''
                   (Some (AtInstant (t + actionDelayMinutes (getLinkedInConfig ls) * 60 * 1000)))
            else li_denied Invalid_time_value None, ls))) \<and>
   (li_success (fst (sendConnectionRequest ag clk ls request)) \<longrightarrow>
      getLastActionTime (snd (sendConnectionRequest ag clk ls request)) = Some (now_ms clk)) \<and>
   (li_success (fst (sendInMail ag clk ls im)) \<longrightarrow>
      getLastActionTime (snd (sendInMail ag clk ls im)) = Some (now_ms clk))"
proof -
  have "\<not> canPerformActionNow clk ls \<and>
        getNextAvailableTime clk ls =
          toISOString (t + actionDelayMinutes (getLinkedInConfig ls) * 60 * 1000)"
    if "getLastActionTime ls = Some t"
      and "now_ms clk - t < actionDelayMinutes (getLinkedInConfig ls) * 60 * 1000"
    using that by (simp add: canPerformActionNow_iff getNextAvailableTime_def)
  then show ?thesis
    using delay_denial_connection [of ls t clk ag request]
      delay_denial_inmail [of ls t clk ag im]
      last_action_after_connection [of ag clk ls request]
      last_action_after_inmail [of ag clk ls im]
    by blast
qed

lemma after_connection_eq:
  "li_success (fst (sendConnectionRequest ok_agent sample_clock empty_storage sample_request)) \<and>
   after_connection =
     empty_storage
       \<lparr>linkedin_connections := [''Tue Jan 20 2026'' \<mapsto> 1],
        linkedin_last_action := Some 1768905000000,
        linkedin_actions :=
          [\<lparr>la_type = ''connection'', la_profileUrl = ''https://linkedin.example/in/a'',
            la_message = Some ''Hello'', la_subject = None, la_body = None,
            la_timestamp = 1768905000000, la_result = None\<rparr>]\<rparr>"
  by (simp add: after_connection_def sendConnectionRequest_def canPerformAction_def
      isWithinLinkedInWindow_def canPerformActionNow_iff getLastActionTime_def
      getLinkedInConfig_def DEFAULT_LINKEDIN_CONFIG_def getTodayLinkedInStats_def
      ok_agent_def ok_response_def Let_def incrementActionCount_def updateLastActionTime_def
      storeLinkedInAction_def empty_storage_def sample_request_def)

text \<open>
  A connection request sent at 10:30 makes an InMail at 10:31 wait until two hours after
  the connection request.
\<close>

theorem action_delay_denial_witness:
  "li_success (fst (sendConnectionRequest ok_agent sample_clock empty_storage sample_request)) \<and>
   getLastActionTime after_connection = Some 1768905000000 \<and>
   now_ms later_clock - 1768905000000 = 60000 \<and>
   sendInMail ok_agent later_clock after_connection sample_inmail =
     (li_denied ''Action delay not met'' (Some (AtInstant (1768905000000 + 120 * 60 * 1000))),
      after_connection)"
proof -
  have cfg: "getLinkedInConfig after_connection = DEFAULT_LINKEDIN_CONFIG"
    by (simp add: after_connection_eq getLinkedInConfig_def empty_storage_def)
  have last: "getLastActionTime after_connection = Some 1768905000000"
    by (simp add: after_connection_eq getLastActionTime_def)
  have early: "now_ms later_clock - 1768905000000
      < actionDelayMinutes (getLinkedInConfig after_connection) * 60 * 1000"
    by (simp add: cfg DEFAULT_LINKEDIN_CONFIG_def)
  have valid: "valid_time (1768905000000
      + actionDelayMinutes (getLinkedInConfig after_connection) * 60 * 1000)"
    by (simp add: cfg DEFAULT_LINKEDIN_CONFIG_def valid_time_def)
  have inm: "linkedin_inmails after_connection = Map.empty"
    by (simp add: after_connection_eq empty_storage_def)
  have can: "canPerformAction later_clock after_connection inmail"
    by (simp add: canPerformAction_def cfg DEFAULT_LINKEDIN_CONFIG_def getTodayLinkedInStats_def
        inm Let_def)
  have win: "isWithinLinkedInWindow later_clock after_connection"
    by (simp add: isWithinLinkedInWindow_def cfg DEFAULT_LINKEDIN_CONFIG_def)
  from action_delay_denial [of after_connection 1768905000000 later_clock ok_agent
      sample_request sample_inmail] last early can win valid
  have "sendInMail ok_agent later_clock after_connection sample_inmail =
     (li_denied ''Action delay not met''
        (Some (AtInstant (1768905000000
            + actionDelayMinutes (getLinkedInConfig after_connection) * 60 * 1000))),
      after_connection)"
    by simp
  then show ?thesis
    using last after_connection_eq by (simp add: cfg DEFAULT_LINKEDIN_CONFIG_def)
qed

text \<open>
  The claim as first stated fails when an earlier check denies: with today's fifteen
  connection requests used up and the last action one minute back, the denial is the
  daily-limit one and the hint is tomorrow's window start. It also fails when the
  last action plus the delay is beyond the range of dates: with a delay of
  200000000000 minutes the answer is the error \<open>Invalid time value\<close> without a hint.
\<close>

theorem delay_reason_counterexample:
  "getLastActionTime capped_storage = Some 1768905000000 \<and>
   now_ms later_clock - 1768905000000
     < actionDelayMinutes (getLinkedInConfig capped_storage) * 60 * 1000 \<and>
   fst (sendConnectionRequest ok_agent later_clock capped_storage sample_request) =
     li_denied ''Daily connection limit reached'' (Some (AtInstant 1768986000000)) \<and>
   getLastActionTime far_delay_storage = Some 1768905000000 \<and>
   now_ms later_clock - 1768905000000
     < actionDelayMinutes (getLinkedInConfig far_delay_storage) * 60 * 1000 \<and>
   fst (sendInMail ok_agent later_clock far_delay_storage sample_inmail) =
     li_denied ''Invalid time value'' None"
proof -
  have cfg: "linkedin_config capped_storage = None"
    by (simp add: capped_storage_def empty_storage_def)
  have nw: "getNextWindow later_clock capped_storage = Returns (AtInstant 1768986000000)"
    by (rule getNextWindow_default [OF cfg]) simp
  have full: "\<not> canPerformAction later_clock capped_storage connection"
    by (simp add: canPerformAction_def getLinkedInConfig_def cfg DEFAULT_LINKEDIN_CONFIG_def
        getTodayLinkedInStats_def capped_storage_def empty_storage_def Let_def)
  have a: "fst (sendConnectionRequest ok_agent later_clock capped_storage sample_request) =
     li_denied ''Daily connection limit reached'' (Some (AtInstant 1768986000000))"
    by (simp add: sendConnectionRequest_def full nw li_denied_with_def)
  have fcfg: "getLinkedInConfig far_delay_storage =
      DEFAULT_LINKEDIN_CONFIG\<lparr>actionDelayMinutes := 200000000000\<rparr>"
    by (simp add: getLinkedInConfig_def far_delay_storage_def empty_storage_def)
  have flast: "getLastActionTime far_delay_storage = Some 1768905000000"
    by (simp add: getLastActionTime_def far_delay_storage_def empty_storage_def)
  have fearly: "now_ms later_clock - 1768905000000
      < actionDelayMinutes (getLinkedInConfig far_delay_storage) * 60 * 1000"
    by (simp add: fcfg)
  have finm: "linkedin_inmails far_delay_storage = Map.empty"
    by (simp add: far_delay_storage_def empty_storage_def)
  have fcan: "canPerformAction later_clock far_delay_storage inmail"
    by (simp add: canPerformAction_def fcfg DEFAULT_LINKEDIN_CONFIG_def getTodayLinkedInStats_def
        finm Let_def)
  have fwin: "isWithinLinkedInWindow later_clock far_delay_storage"
    by (simp add: isWithinLinkedInWindow_def fcfg DEFAULT_LINKEDIN_CONFIG_def)
  have b: "fst (sendInMail ok_agent later_clock far_delay_storage sample_inmail) =
     li_denied ''Invalid time value'' None"
    by (simp add: delay_denial_inmail [OF flast fearly fcan fwin] fcfg valid_time_def
        Invalid_time_value_def)
  have clast: "getLastActionTime capped_storage = Some 1768905000000"
    by (simp add: getLastActionTime_def capped_storage_def empty_storage_def)
  have cearly: "now_ms later_clock - 1768905000000
      < actionDelayMinutes (getLinkedInConfig capped_storage) * 60 * 1000"
    by (simp add: getLinkedInConfig_def cfg DEFAULT_LINKEDIN_CONFIG_def)
  show ?thesis
    using a b clast cearly flast fearly by simp
qed

subsection \<open>Daily cap\<close>

lemma canSendToday_iff:
  "fst (canSendToday clk ls) \<longleftrightarrow>
     int (getTodaySentCount clk ls) <
       effectiveLimit (warmupEnabled (getEmailConfig ls)) (fst (getWarmupLimit clk ls))
         (dailyLimit (getEmailConfig ls))"
  by (auto simp: canSendToday_def effectiveLimit_def getWarmupLimit_def getAccountAgeInDays_def
      getTodaySentCount_def Let_def split: prod.splits option.splits)

lemma canSendToday_frame:
  "gmail_sent (snd (canSendToday clk ls)) = gmail_sent ls \<and>
   gmail_config (snd (canSendToday clk ls)) = gmail_config ls"
  by (auto simp: canSendToday_def getWarmupLimit_def getAccountAgeInDays_def Let_def
      split: prod.splits option.splits)

lemma fold_incrementSentCount_frame:
  "gmail_config (fold incrementSentCount clks ls) = gmail_config ls \<and>
   gmail_first_send_date (fold incrementSentCount clks ls) = gmail_first_send_date ls"
  by (induction clks arbitrary: ls) (simp_all add: incrementSentCount_def Let_def)

lemma fold_incrementSentCount_count:
  "\<forall>c \<in> set clks. date_string c = date_string clk \<Longrightarrow>
   getTodaySentCount clk (fold incrementSentCount clks ls) = getTodaySentCount clk ls + length clks"
proof (induction clks arbitrary: ls)
  case Nil
  then show ?case by simp
next
  case (Cons c cs)
  have "getTodaySentCount clk (incrementSentCount c ls) = getTodaySentCount clk ls + 1"
    using Cons.prems by (simp add: incrementSentCount_def getTodaySentCount_def Let_def)
  with Cons show ?case by simp
qed

lemma getWarmupLimit_cong:
  "gmail_first_send_date ls' = gmail_first_send_date ls \<Longrightarrow>
   fst (getWarmupLimit clk ls') = fst (getWarmupLimit clk ls)"
  by (simp add: getWarmupLimit_def getAccountAgeInDays_def Let_def split: option.splits)

lemma email_denial:
  "\<not> fst (canSendToday clk ls) \<Longrightarrow>
   fst (sendOutreachEmail ag mid clk ls email) =
     \<lparr>em_success = False, em_messageId = None,
      em_error = Some ''Daily sending limit reached'', em_scheduledFor = None\<rparr>"
  by (cases "canSendToday clk ls") (simp add: sendOutreachEmail_def)

lemma email_recorded:
  "(em_success (fst (sendOutreachEmail ag mid clk ls email)) \<longrightarrow>
      getTodaySentCount clk (snd (sendOutreachEmail ag mid clk ls email)) =
        getTodaySentCount clk ls + 1) \<and>
   (\<not> (fst (canSendToday clk ls) \<and> isWithinSendingWindow clk ls) \<longrightarrow>
      getTodaySentCount clk (snd (sendOutreachEmail ag mid clk ls email)) =
        getTodaySentCount clk ls)"
proof -
  obtain can ls1 where c: "canSendToday clk ls = (can, ls1)"
    by (cases "canSendToday clk ls")
  have f: "gmail_sent ls1 = gmail_sent ls" "gmail_config ls1 = gmail_config ls"
    using canSendToday_frame [of clk ls] by (simp_all add: c)
  have cnt: "getTodaySentCount clk ls1 = getTodaySentCount clk ls"
    by (simp add: getTodaySentCount_def f)
  have win: "isWithinSendingWindow clk ls1 = isWithinSendingWindow clk ls"
    by (simp add: isWithinSendingWindow_def getEmailConfig_def f)
  have inc: "getTodaySentCount clk (storeSentEmail d (incrementSentCount clk ls1)) =
      getTodaySentCount clk ls + 1" for d
    by (simp add: storeSentEmail_def incrementSentCount_def getTodaySentCount_def f Let_def)
  show ?thesis
    by (simp add: sendOutreachEmail_def c cnt win inc Let_def split: outcome.splits)
qed

lemma linkedin_cap_iff:
  "safetyLimitsEnabled (getLinkedInConfig ls) \<Longrightarrow>
   (canPerformAction clk ls connection \<longleftrightarrow>
      int (fst (getTodayLinkedInStats clk ls)) < dailyConnectionLimit (getLinkedInConfig ls)) \<and>
   (canPerformAction clk ls inmail \<longleftrightarrow>
      int (snd (getTodayLinkedInStats clk ls)) < dailyInMailLimit (getLinkedInConfig ls))"
  by (simp add: canPerformAction_def Let_def)

lemma fold_incrementActionCount_config:
  "linkedin_config (fold (\<lambda>c. incrementActionCount c kind) clks ls) = linkedin_config ls"
  by (induction clks arbitrary: ls)
    (simp_all add: incrementActionCount_def Let_def split: action_type.splits)

lemma incrementActionCount_stats:
  "date_string c = date_string clk \<Longrightarrow>
   getTodayLinkedInStats clk (incrementActionCount c kind ls) =
     (case kind of
        connection \<Rightarrow>
          (fst (getTodayLinkedInStats clk ls) + 1, snd (getTodayLinkedInStats clk ls))
      | inmail \<Rightarrow>
          (fst (getTodayLinkedInStats clk ls), snd (getTodayLinkedInStats clk ls) + 1))"
  by (simp add: incrementActionCount_def getTodayLinkedInStats_def Let_def
      split: action_type.splits)

lemma fold_incrementActionCount_stats:
  "\<forall>c \<in> set clks. date_string c = date_string clk \<Longrightarrow>
   getTodayLinkedInStats clk (fold (\<lambda>c. incrementActionCount c kind) clks ls) =
     (case kind of
        connection \<Rightarrow>
          (fst (getTodayLinkedInStats clk ls) + length clks, snd (getTodayLinkedInStats clk ls))
      | inmail \<Rightarrow>
          (fst (getTodayLinkedInStats clk ls), snd (getTodayLinkedInStats clk ls) + length clks))"
proof (induction clks arbitrary: ls)
  case Nil
  then show ?case by (simp split: action_type.splits)
next
  case (Cons c cs)
  then show ?case
    by (simp add: incrementActionCount_stats [of c clk] split: action_type.splits)
qed

lemma linkedin_cap_after_recorded:
  assumes "safetyLimitsEnabled (getLinkedInConfig ls)"
    and "\<forall>c \<in> set clks. date_string c = date_string clk"
  shows "(canPerformAction clk (fold (\<lambda>c. incrementActionCount c connection) clks ls) connection \<longleftrightarrow>
            int (fst (getTodayLinkedInStats clk ls) + length clks)
              < dailyConnectionLimit (getLinkedInConfig ls)) \<and>
         (canPerformAction clk (fold (\<lambda>c. incrementActionCount c inmail) clks ls) inmail \<longleftrightarrow>
            int (snd (getTodayLinkedInStats clk ls) + length clks)
              < dailyInMailLimit (getLinkedInConfig ls))"
proof -
  have cfg: "getLinkedInConfig (fold (\<lambda>c. incrementActionCount c kind) clks ls) =
      getLinkedInConfig ls" for kind
    by (simp add: getLinkedInConfig_def fold_incrementActionCount_config)
  show ?thesis
    using assms(1)
    by (simp add: canPerformAction_def cfg fold_incrementActionCount_stats [OF assms(2)] Let_def)
qed

lemma connection_recorded:
  "getTodayLinkedInStats clk (snd (sendConnectionRequest ag clk ls request)) =
     (if li_success (fst (sendConnectionRequest ag clk ls request))
      then (fst (getTodayLinkedInStats clk ls) + 1, snd (getTodayLinkedInStats clk ls))
      else getTodayLinkedInStats clk ls) \<and>
   getLinkedInConfig (snd (sendConnectionRequest ag clk ls request)) = getLinkedInConfig ls"
  by (simp add: sendConnectionRequest_def Let_def getTodayLinkedInStats_def getLinkedInConfig_def
      incrementActionCount_def updateLastActionTime_def storeLinkedInAction_def
      split: outcome.splits)

lemma inmail_recorded:
  "getTodayLinkedInStats clk (snd (sendInMail ag clk ls im)) =
     (if li_success (fst (sendInMail ag clk ls im))
      then (fst (getTodayLinkedInStats clk ls), snd (getTodayLinkedInStats clk ls) + 1)
      else getTodayLinkedInStats clk ls) \<and>
   getLinkedInConfig (snd (sendInMail ag clk ls im)) = getLinkedInConfig ls"
  by (simp add: sendInMail_def Let_def getTodayLinkedInStats_def getLinkedInConfig_def
      incrementActionCount_def updateLastActionTime_def storeLinkedInAction_def
      split: outcome.splits)

lemma stats_same_day:
  "date_string clk' = date_string clk \<Longrightarrow>
   getTodayLinkedInStats clk' ls = getTodayLinkedInStats clk ls"
  by (simp add: getTodayLinkedInStats_def)

lemma linkedin_cap_after_send:
  assumes "safetyLimitsEnabled (getLinkedInConfig ls)"
    and "date_string clk' = date_string clk"
  shows "(li_success (fst (sendConnectionRequest ag clk ls request)) \<longrightarrow>
            (canPerformAction clk' (snd (sendConnectionRequest ag clk ls request)) connection \<longleftrightarrow>
               int (fst (getTodayLinkedInStats clk ls) + 1)
                 < dailyConnectionLimit (getLinkedInConfig ls))) \<and>
         (li_success (fst (sendInMail ag clk ls im)) \<longrightarrow>
            (canPerformAction clk' (snd (sendInMail ag clk ls im)) inmail \<longleftrightarrow>
               int (snd (getTodayLinkedInStats clk ls) + 1)
                 < dailyInMailLimit (getLinkedInConfig ls)))"
  using assms(1) connection_recorded [of clk ag ls request] inmail_recorded [of clk ag ls im]
  by (simp add: canPerformAction_def stats_same_day [OF assms(2)] Let_def)

lemma linkedin_denial:
  "(\<not> canPerformAction clk ls connection \<longrightarrow>
      sendConnectionRequest ag clk ls request =
        (case getNextWindow clk ls of
           Returns nextWindow \<Rightarrow> li_denied ''Daily connection limit reached'' (Some nextWindow)
         | Throws msg \<Rightarrow> li_denied msg None, ls)) \<and>
   (\<not> canPerformAction clk ls inmail \<longrightarrow>
      sendInMail ag clk ls im =
        (case getNextWindow clk ls of
           Returns nextWindow \<Rightarrow> li_denied ''Daily InMail limit reached'' (Some nextWindow)
         | Throws msg \<Rightarrow> li_denied msg None, ls))"
  by (simp add: sendConnectionRequest_def sendInMail_def li_denied_with_def
      split: outcome.splits)

text \<open>
  Claim C1, as amended. For Email, \<open>canSendToday\<close> allows exactly when today's sent
  count is below the effective limit (the smaller of the warmup limit and the daily limit
  with warmup enabled, the daily limit otherwise); a successful \<open>sendOutreachEmail\<close>
  adds one to today's count, and one that is stopped by that check or by the window check
  leaves the count as it was; after further
  recorded sends on the same day the check compares the increased count, so it denies
  once the count reaches the limit, and \<open>sendOutreachEmail\<close> then answers
  \<open>Daily sending limit reached\<close>. For LinkedIn there is no warmup and one counter per
  action kind, to which a successful send of that kind adds one and which nothing else
  changes. With \<open>safetyLimitsEnabled\<close> the check allows exactly when the kind's count
  is below the kind's daily limit, also after further recorded actions of the day and
  after a successful send; without it the check always allows. A denied request leaves
  the store unchanged and answers with the kind's daily-limit error and the next window
  when \<open>getNextWindow\<close> returns one, and with the message of the error and no hint when
  \<open>getNextWindow\<close> throws.
\<close>

theorem daily_cap_admission:
  "(fst (canSendToday clk ls) \<longleftrightarrow>
      int (getTodaySentCount clk ls) <
        effectiveLimit (warmupEnabled (getEmailConfig ls)) (fst (getWarmupLimit clk ls))
          (dailyLimit (getEmailConfig ls))) \<and>
   (em_success (fst (sendOutreachEmail ag' mid clk ls email)) \<longrightarrow>
      getTodaySentCount clk (snd (sendOutreachEmail ag' mid clk ls email)) =
        getTodaySentCount clk ls + 1) \<and>
   (\<not> (fst (canSendToday clk ls) \<and> isWithinSendingWindow clk ls) \<longrightarrow>
      getTodaySentCount clk (snd (sendOutreachEmail ag' mid clk ls email)) =
        getTodaySentCount clk ls) \<and>
   ((\<forall>c \<in> set clks. date_string c = date_string clk) \<longrightarrow>
      (fst (canSendToday clk (fold incrementSentCount clks ls)) \<longleftrightarrow>
         int (getTodaySentCount clk ls + length clks) <
           effectiveLimit (warmupEnabled (getEmailConfig ls)) (fst (getWarmupLimit clk ls))
             (dailyLimit (getEmailConfig ls)))) \<and>
   (\<not> fst (canSendToday clk ls) \<longrightarrow>
      fst (sendOutreachEmail ag' mid clk ls email) =
        \<lparr>em_success = False, em_messageId = None,
         em_error = Some ''Daily sending limit reached'', em_scheduledFor = None\<rparr>) \<and>
   getTodayLinkedInStats clk (snd (sendConnectionRequest ag clk ls request)) =
     (if li_success (fst (sendConnectionRequest ag clk ls request))
      then (fst (getTodayLinkedInStats clk ls) + 1, snd (getTodayLinkedInStats clk ls))
      else getTodayLinkedInStats clk ls) \<and>
   getTodayLinkedInStats clk (snd (sendInMail ag clk ls im)) =
     (if li_success (fst (sendInMail ag clk ls im))
      then (fst (getTodayLinkedInStats clk ls), snd (getTodayLinkedInStats clk ls) + 1)
      else getTodayLinkedInStats clk ls) \<and>
   (safetyLimitsEnabled (getLinkedInConfig ls) \<longrightarrow>
      (canPerformAction clk ls connection \<longleftrightarrow>
         int (fst (getTodayLinkedInStats clk ls)) < dailyConnectionLimit (getLinkedInConfig ls)) \<and>
      (canPerformAction clk ls inmail \<longleftrightarrow>
         int (snd (getTodayLinkedInStats clk ls)) < dailyInMailLimit (getLinkedInConfig ls))) \<and>
   (safetyLimitsEnabled (getLinkedInConfig ls) \<and>
    (\<forall>c \<in> set clks. date_string c = date_string clk) \<longrightarrow>
      (canPerformAction clk (fold (\<lambda>c. incrementActionCount c connection) clks ls) connection \<longleftrightarrow>
         int (fst (getTodayLinkedInStats clk ls) + length clks)
           < dailyConnectionLimit (getLinkedInConfig ls)) \<and>
      (canPerformAction clk (fold (\<lambda>c. incrementActionCount c inmail) clks ls) inmail \<longleftrightarrow>
         int (snd (getTodayLinkedInStats clk ls) + length clks)
           < dailyInMailLimit (getLinkedInConfig ls))) \<and>
   (safetyLimitsEnabled (getLinkedInConfig ls) \<and> date_string clk' = date_string clk \<longrightarrow>
      (li_success (fst (sendConnectionRequest ag clk ls request)) \<longrightarrow>
         (canPerformAction clk' (snd (sendConnectionRequest ag clk ls request)) connection \<longleftrightarrow>
            int (fst (getTodayLinkedInStats clk ls) + 1)
              < dailyConnectionLimit (getLinkedInConfig ls))) \<and>
      (li_success (fst (sendInMail ag clk ls im)) \<longrightarrow>
         (canPerformAction clk' (snd (sendInMail ag clk ls im)) inmail \<longleftrightarrow>
            int (snd (getTodayLinkedInStats clk ls) + 1)
              < dailyInMailLimit (getLinkedInConfig ls)))) \<and>
   (\<not> safetyLimitsEnabled (getLinkedInConfig ls) \<longrightarrow>
      canPerformAction clk ls connection \<and> canPerformAction clk ls inmail) \<and>
   (\<not> canPerformAction clk ls connection \<longrightarrow>
      sendConnectionRequest ag clk ls request =
        (case getNextWindow clk ls of
           Returns nextWindow \<Rightarrow> li_denied ''Daily connection limit reached'' (Some nextWindow)
         | Throws msg \<Rightarrow> li_denied msg None, ls)) \<and>
   (\<not> canPerformAction clk ls inmail \<longrightarrow>
      sendInMail ag clk ls im =
        (case getNextWindow clk ls of
           Returns nextWindow \<Rightarrow> li_denied ''Daily InMail limit reached'' (Some nextWindow)
         | Throws msg \<Rightarrow> li_denied msg None, ls))"
proof -
  have off: "canPerformAction clk ls connection \<and> canPerformAction clk ls inmail"
    if "\<not> safetyLimitsEnabled (getLinkedInConfig ls)"
    using that by (simp add: canPerformAction_def)
  have after: "fst (canSendToday clk (fold incrementSentCount clks ls)) \<longleftrightarrow>
         int (getTodaySentCount clk ls + length clks) <
           effectiveLimit (warmupEnabled (getEmailConfig ls)) (fst (getWarmupLimit clk ls))
             (dailyLimit (getEmailConfig ls))"
    if same: "\<forall>c \<in> set clks. date_string c = date_string clk"
  proof -
    have cfg: "getEmailConfig (fold incrementSentCount clks ls) = getEmailConfig ls"
      by (simp add: getEmailConfig_def fold_incrementSentCount_frame)
    have lim: "fst (getWarmupLimit clk (fold incrementSentCount clks ls)) = fst (getWarmupLimit clk ls)"
      by (rule getWarmupLimit_cong) (simp add: fold_incrementSentCount_frame)
    show ?thesis
      by (simp only: canSendToday_iff cfg lim fold_incrementSentCount_count [OF same])
  qed
  note E1 = canSendToday_iff [of clk ls]
  note E2 = email_recorded [where ag = ag' and mid = mid and clk = clk and ls = ls
      and email = email]
  note E4 = email_denial [of clk ls ag' mid email]
  note L1 = conjunct1 [OF connection_recorded [of clk ag ls request]]
  note L2 = conjunct1 [OF inmail_recorded [of clk ag ls im]]
  note L3 = linkedin_cap_iff [of ls clk]
  note L4 = linkedin_cap_after_recorded [of ls clks clk]
  note L5 = linkedin_cap_after_send [of ls clk' clk ag request im]
  note L6 = linkedin_denial [of clk ls ag request im]
  show ?thesis
    apply (intro conjI)
    subgoal by (rule E1)
    subgoal using E2 by blast
    subgoal using E2 by blast
    subgoal using after by blast
    subgoal using E4 by blast
    subgoal by (rule L1)
    subgoal by (rule L2)
    subgoal using L3 by blast
    subgoal using L4 by blast
    subgoal using L5 by blast
    subgoal using off by blast
    subgoal using L6 by blast
    subgoal using L6 by blast
    done
qed

text \<open>
  An account less than a day old with nine mails sent today may send, and the send is
  counted as the tenth; after the tenth recorded send the check denies and
  \<open>sendOutreachEmail\<close> reports the daily limit. On
  LinkedIn, with fourteen connection requests recorded today, the fifteenth is sent and
  counted, and the next one is denied with the daily-limit error and tomorrow's window
  start.
\<close>

theorem daily_cap_admission_witness:
  "fst (canSendToday sample_clock nine_sent) \<and>
   em_success (fst (sendOutreachEmail ok_agent ''msg_0'' sample_clock nine_sent
          \<lparr>oe_to = ''a@x.com'', oe_subject = ''Hello'', oe_body = ''Hi'', oe_accountId = None,
           oe_outreachId = Some ''out_122''\<rparr>)) \<and>
   getTodaySentCount sample_clock
     (snd (sendOutreachEmail ok_agent ''msg_0'' sample_clock nine_sent
          \<lparr>oe_to = ''a@x.com'', oe_subject = ''Hello'', oe_body = ''Hi'', oe_accountId = None,
           oe_outreachId = Some ''out_122''\<rparr>)) = 10 \<and>
   \<not> fst (canSendToday sample_clock (fold incrementSentCount [later_clock] nine_sent)) \<and>
   fst (sendOutreachEmail ok_agent ''msg_1'' later_clock
          (fold incrementSentCount [later_clock] nine_sent)
          \<lparr>oe_to = ''a@x.com'', oe_subject = ''Hello'', oe_body = ''Hi'', oe_accountId = None,
           oe_outreachId = Some ''out_123''\<rparr>) =
     \<lparr>em_success = False, em_messageId = None,
      em_error = Some ''Daily sending limit reached'', em_scheduledFor = None\<rparr> \<and>
   canPerformAction sample_clock fourteen_connections connection \<and>
   li_success (fst (sendConnectionRequest ok_agent sample_clock fourteen_connections
                      sample_request)) \<and>
   getTodayLinkedInStats later_clock fifteenth_sent = (15, 0) \<and>
   \<not> canPerformAction later_clock fifteenth_sent connection \<and>
   sendConnectionRequest ok_agent later_clock fifteenth_sent sample_request =
     (li_denied ''Daily connection limit reached'' (Some (AtInstant 1768986000000)),
      fifteenth_sent)"
proof -
  have cfg: "getEmailConfig nine_sent = DEFAULT_EMAIL_CONFIG"
    by (simp add: getEmailConfig_def nine_sent_def empty_storage_def)
  have lim: "fst (getWarmupLimit sample_clock nine_sent) = 10"
    by (simp add: getWarmupLimit_def getAccountAgeInDays_def nine_sent_def empty_storage_def Let_def)
  have cnt: "getTodaySentCount sample_clock nine_sent = 9"
    by (simp add: getTodaySentCount_def nine_sent_def empty_storage_def)
  have eff: "effectiveLimit (warmupEnabled (getEmailConfig nine_sent))
               (fst (getWarmupLimit sample_clock nine_sent)) (dailyLimit (getEmailConfig nine_sent)) = 10"
    by (simp add: cfg lim effectiveLimit_def DEFAULT_EMAIL_CONFIG_def)
  have same: "\<forall>c \<in> set [later_clock]. date_string c = date_string sample_clock" by simp
  note E = daily_cap_admission [where clk = sample_clock and ls = nine_sent
      and clks = "[later_clock]"]
  have a: "fst (canSendToday sample_clock nine_sent)"
    using E by (simp add: eff cnt)
  have b: "\<not> fst (canSendToday sample_clock (fold incrementSentCount [later_clock] nine_sent))"
    using E same by (simp add: eff cnt)
  have b': "\<not> fst (canSendToday later_clock (fold incrementSentCount [later_clock] nine_sent))"
    using b by (simp add: canSendToday_def getWarmupLimit_def getAccountAgeInDays_def
        getTodaySentCount_def incrementSentCount_def nine_sent_def empty_storage_def Let_def
        getEmailConfig_def DEFAULT_EMAIL_CONFIG_def)
  have c: "fst (sendOutreachEmail ok_agent ''msg_1'' later_clock
          (fold incrementSentCount [later_clock] nine_sent)
          \<lparr>oe_to = ''a@x.com'', oe_subject = ''Hello'', oe_body = ''Hi'', oe_accountId = None,
           oe_outreachId = Some ''out_123''\<rparr>) =
     \<lparr>em_success = False, em_messageId = None,
      em_error = Some ''Daily sending limit reached'', em_scheduledFor = None\<rparr>"
    using daily_cap_admission [where clk = later_clock
        and ls = "fold incrementSentCount [later_clock] nine_sent" and clks = "[]"
        and ag' = ok_agent and mid = "''msg_1''"] b'
    by simp
  obtain ls1 where c1: "canSendToday sample_clock nine_sent = (True, ls1)"
    using a by (cases "canSendToday sample_clock nine_sent") simp
  have cfg0: "gmail_config nine_sent = None"
    by (simp add: nine_sent_def empty_storage_def)
  have cfg1: "gmail_config ls1 = None"
    using canSendToday_frame [of sample_clock nine_sent] by (simp add: c1 cfg0)
  have w1: "isWithinSendingWindow sample_clock ls1"
    by (simp add: isWithinSendingWindow_def getEmailConfig_def cfg1 DEFAULT_EMAIL_CONFIG_def)
  have s: "em_success (fst (sendOutreachEmail ok_agent ''msg_0'' sample_clock nine_sent
          \<lparr>oe_to = ''a@x.com'', oe_subject = ''Hello'', oe_body = ''Hi'', oe_accountId = None,
           oe_outreachId = Some ''out_122''\<rparr>))"
    by (simp add: sendOutreachEmail_def c1 w1 ok_agent_def Let_def)
  have s': "getTodaySentCount sample_clock
     (snd (sendOutreachEmail ok_agent ''msg_0'' sample_clock nine_sent
          \<lparr>oe_to = ''a@x.com'', oe_subject = ''Hello'', oe_body = ''Hi'', oe_accountId = None,
           oe_outreachId = Some ''out_122''\<rparr>)) = 10"
    using daily_cap_admission [where clk = sample_clock and ls = nine_sent
        and ag' = ok_agent and mid = "''msg_0''"
        and email = "\<lparr>oe_to = ''a@x.com'', oe_subject = ''Hello'', oe_body = ''Hi'',
           oe_accountId = None, oe_outreachId = Some ''out_122''\<rparr>"] s
    by (simp add: cnt)
  have lcfg: "linkedin_config fourteen_connections = None"
    by (simp add: fourteen_connections_def empty_storage_def)
  have on: "safetyLimitsEnabled (getLinkedInConfig fourteen_connections)"
    "dailyConnectionLimit (getLinkedInConfig fourteen_connections) = 15"
    by (simp_all add: getLinkedInConfig_def lcfg DEFAULT_LINKEDIN_CONFIG_def)
  have stats: "getTodayLinkedInStats sample_clock fourteen_connections = (14, 0)"
    by (simp add: getTodayLinkedInStats_def fourteen_connections_def empty_storage_def)
  note L = daily_cap_admission [where clk = sample_clock and ls = fourteen_connections
      and ag = ok_agent and request = sample_request and clk' = later_clock]
  have d: "canPerformAction sample_clock fourteen_connections connection"
    using L on by (simp add: stats)
  have win: "isWithinLinkedInWindow sample_clock fourteen_connections"
    by (simp add: isWithinLinkedInWindow_def getLinkedInConfig_def lcfg DEFAULT_LINKEDIN_CONFIG_def)
  have now: "canPerformActionNow sample_clock fourteen_connections"
    by (simp add: canPerformActionNow_iff getLastActionTime_def fourteen_connections_def
        empty_storage_def)
  have e: "li_success (fst (sendConnectionRequest ok_agent sample_clock fourteen_connections
                      sample_request))"
    using d win now
    by (simp add: sendConnectionRequest_def ok_agent_def ok_response_def Let_def)
  have f: "getTodayLinkedInStats later_clock fifteenth_sent = (15, 0)"
    using L e by (simp add: fifteenth_sent_def stats stats_same_day [of later_clock sample_clock])
  have g: "\<not> canPerformAction later_clock fifteenth_sent connection"
    using L e on by (simp add: fifteenth_sent_def stats)
  have lcfg': "linkedin_config fifteenth_sent = None"
    using d win now
    by (simp add: fifteenth_sent_def sendConnectionRequest_def ok_agent_def ok_response_def
        incrementActionCount_def updateLastActionTime_def storeLinkedInAction_def lcfg Let_def)
  have nw: "getNextWindow later_clock fifteenth_sent = Returns (AtInstant 1768986000000)"
    by (rule getNextWindow_default [OF lcfg']) simp
  have h: "sendConnectionRequest ok_agent later_clock fifteenth_sent sample_request =
     (li_denied ''Daily connection limit reached'' (Some (AtInstant 1768986000000)),
      fifteenth_sent)"
    using daily_cap_admission [where clk = later_clock and ls = fifteenth_sent
        and ag = ok_agent and request = sample_request] g
    by (simp add: nw)
  show ?thesis
    using a s s' b c d e f g h by simp
qed

text \<open>
  The claim as first stated covers every channel. On LinkedIn with the safety limits off
  the check allows although the count is not below the limit; and with the safety limits
  on, the count at the limit and a window start written \<open>9am\<close>, the request is denied
  but not with the daily-limit reason: computing the hint throws, and the answer carries
  the message of that error.
\<close>

theorem every_channel_cap_counterexample:
  "canPerformAction sample_clock uncapped_storage connection \<and>
   \<not> int (fst (getTodayLinkedInStats sample_clock uncapped_storage))
       < dailyConnectionLimit (getLinkedInConfig uncapped_storage) \<and>
   \<not> canPerformAction sample_clock informal_window_storage connection \<and>
   fst (sendConnectionRequest ok_agent sample_clock informal_window_storage sample_request) =
     li_denied ''Invalid time value'' None"
proof -
  have a: "canPerformAction sample_clock uncapped_storage connection \<and>
   \<not> int (fst (getTodayLinkedInStats sample_clock uncapped_storage))
       < dailyConnectionLimit (getLinkedInConfig uncapped_storage)"
    by (simp add: canPerformAction_def getLinkedInConfig_def getTodayLinkedInStats_def
        uncapped_storage_def empty_storage_def DEFAULT_LINKEDIN_CONFIG_def Let_def)
  have b: "\<not> canPerformAction sample_clock informal_window_storage connection"
    by (simp add: canPerformAction_def getLinkedInConfig_def getTodayLinkedInStats_def
        informal_window_storage_def empty_storage_def DEFAULT_LINKEDIN_CONFIG_def Let_def)
  have c: "fst (sendConnectionRequest ok_agent sample_clock informal_window_storage
                  sample_request) = li_denied ''Invalid time value'' None"
    by (simp add: sendConnectionRequest_def b getNextWindow_informal li_denied_with_def
        Invalid_time_value_def)
  show ?thesis using a b c by simp
qed

subsection \<open>Signature verification\<close>

lemma calendly_endpoint_not_401:
  "http_status (fst (handleCalendlyWebhookEndpoint e ag clk body headers ls)) \<noteq> 401"
  by (simp add: handleCalendlyWebhookEndpoint_def verifyCalendlyWebhook_def internal_error_def
      Let_def split: prod.splits outcome.splits)

lemma otter_endpoint_not_401:
  "http_status (fst (handleOtterWebhookEndpoint e ag clk body headers ls)) \<noteq> 401"
  by (simp add: handleOtterWebhookEndpoint_def verifyOtterWebhook_def Let_def split: prod.splits)

lemma slack_endpoint_not_401:
  "http_status (fst (handleSlackInteractionEndpoint e clk body headers ls)) \<noteq> 401"
  by (simp add: handleSlackInteractionEndpoint_def verifySlackRequest_def internal_error_def
      Let_def split: prod.splits decoded.splits)

lemma endpoints_ignore_headers:
  "handleCalendlyWebhookEndpoint e ag clk cbody headers ls =
     handleCalendlyWebhookEndpoint e ag clk cbody headers' ls \<and>
   handleOtterWebhookEndpoint e ag clk obody headers ls =
     handleOtterWebhookEndpoint e ag clk obody headers' ls \<and>
   handleSlackInteractionEndpoint e clk sbody headers ls =
     handleSlackInteractionEndpoint e clk sbody headers' ls"
  by (simp add: handleCalendlyWebhookEndpoint_def verifyCalendlyWebhook_def
      handleOtterWebhookEndpoint_def verifyOtterWebhook_def
      handleSlackInteractionEndpoint_def verifySlackRequest_def Let_def
      split: decoded.splits slack_body.splits)

text \<open>
  Claim C3. The three verifiers answer true for every payload, signature and secret (and
  timestamp and body for Slack), so the Calendly, Otter and Slack endpoints never answer
  401: what they return does not depend on the request headers at all.
\<close>

theorem signature_never_rejected:
  "verifyCalendlyWebhook payload signature secret \<and>
   verifyOtterWebhook payload signature secret \<and>
   verifySlackRequest timestamp signature body signingSecret \<and>
   http_status (fst (handleCalendlyWebhookEndpoint e ag clk cbody headers ls)) \<noteq> 401 \<and>
   http_status (fst (handleOtterWebhookEndpoint e ag clk obody headers ls)) \<noteq> 401 \<and>
   http_status (fst (handleSlackInteractionEndpoint e clk sbody headers ls)) \<noteq> 401 \<and>
   handleCalendlyWebhookEndpoint e ag clk cbody headers ls =
     handleCalendlyWebhookEndpoint e ag clk cbody headers' ls \<and>
   handleOtterWebhookEndpoint e ag clk obody headers ls =
     handleOtterWebhookEndpoint e ag clk obody headers' ls \<and>
   handleSlackInteractionEndpoint e clk sbody headers ls =
     handleSlackInteractionEndpoint e clk sbody headers' ls"
  using calendly_endpoint_not_401 [of e ag clk cbody headers ls]
    otter_endpoint_not_401 [of e ag clk obody headers ls]
    slack_endpoint_not_401 [of e clk sbody headers ls]
    endpoints_ignore_headers [of e ag clk cbody headers ls headers' obody sbody]
  by (simp add: verifyCalendlyWebhook_def verifyOtterWebhook_def verifySlackRequest_def)

text \<open>
  With secrets configured and forged signature headers, the three endpoints process the
  delivery and answer 200.
\<close>

theorem signature_never_rejected_witness:
  "VITE_CALENDLY_WEBHOOK_SECRET sample_env \<noteq> [] \<and>
   bad_signature ''calendly-webhook-signature'' = Some ''forged'' \<and>
   http_status (fst (handleCalendlyWebhookEndpoint sample_env ok_agent sample_clock
       (sample_booking ''invitee.canceled'' ''2026-01-20T10:00:00Z'' ''2026-01-20T10:30:00Z'')
       bad_signature empty_storage)) = 200 \<and>
   http_status (fst (handleOtterWebhookEndpoint sample_env ok_agent sample_clock
       sample_transcript bad_signature empty_storage)) = 200 \<and>
   http_status (fst (handleSlackInteractionEndpoint sample_env sample_clock
       (ObjectBody (click sample_user (hd (buttons_of (buildApprovalBlocks sample_notification)))))
       bad_signature empty_storage)) = 200"
proof -
  note T = signature_never_rejected [of "[]" "[]" "[]" "[]" "[]" "[]" sample_env ok_agent
      sample_clock
      "sample_booking ''invitee.canceled'' ''2026-01-20T10:00:00Z'' ''2026-01-20T10:30:00Z''"
      bad_signature empty_storage sample_transcript
      "ObjectBody (click sample_user (hd (buttons_of (buildApprovalBlocks sample_notification))))"
      Map.empty]
  have c: "http_status (fst (handleCalendlyWebhookEndpoint sample_env ok_agent sample_clock
       (sample_booking ''invitee.canceled'' ''2026-01-20T10:00:00Z'' ''2026-01-20T10:30:00Z'')
       bad_signature empty_storage)) = 200"
    by (simp add: handleCalendlyWebhookEndpoint_def verifyCalendlyWebhook_def
        handleCalendlyWebhook_def processMeetingCanceled_def ok_agent_def sample_booking_def
        Let_def split: prod.splits)
  have o: "http_status (fst (handleOtterWebhookEndpoint sample_env ok_agent sample_clock
       sample_transcript bad_signature empty_storage)) = 200"
    by (simp add: handleOtterWebhookEndpoint_def verifyOtterWebhook_def Let_def
        split: prod.splits)
  have s: "http_status (fst (handleSlackInteractionEndpoint sample_env sample_clock
       (ObjectBody (click sample_user (hd (buttons_of (buildApprovalBlocks sample_notification)))))
       bad_signature empty_storage)) = 200"
    by (simp add: handleSlackInteractionEndpoint_def verifySlackRequest_def Let_def
        split: prod.splits)
  show ?thesis
    using T c o s by (simp add: sample_env_def bad_signature_def)
qed

subsection \<open>Approval buttons\<close>

lemma buttons_of_buildApprovalBlocks:
  "buttons_of (buildApprovalBlocks n) =
     [\<lparr>btn_text = ''Approve'', btn_style = Some ''primary'',
       action_id = ''approve_'' @ an_outreachId n, btn_value = an_outreachId n\<rparr>,
      \<lparr>btn_text = ''Edit'', btn_style = None,
       action_id = ''edit_'' @ an_outreachId n, btn_value = an_outreachId n\<rparr>,
      \<lparr>btn_text = ''Reject'', btn_style = Some ''danger'',
       action_id = ''reject_'' @ an_outreachId n, btn_value = an_outreachId n\<rparr>]"
  by (simp add: buttons_of_def buildApprovalBlocks_def)

text \<open>
  Claim C9. For every outreach id the approval message carries exactly three buttons,
  with the action identifiers \<open>approve_<id>\<close>, \<open>edit_<id>\<close> and \<open>reject_<id>\<close>
  and the id as value. Pressing one and feeding the interaction to
  \<open>handleSlackInteraction\<close> acts on that same id: approve records the status
  \<open>approved\<close>, reject records \<open>rejected\<close>, and edit leaves the store as it is and
  answers with the redirect to the approval queue.
\<close>

theorem approval_actions_round_trip:
  "(let bs = buttons_of (buildApprovalBlocks n); oid = an_outreachId n in
      map action_id bs = [''approve_'' @ oid, ''edit_'' @ oid, ''reject_'' @ oid] \<and>
      map btn_value bs = [oid, oid, oid] \<and>
      handleSlackInteraction clk (click u (bs ! 0)) ls =
        (succeeded ''Message approved and queued for sending'',
         ls\<lparr>approvals :=
              (approvals ls)(oid \<mapsto> Decision ''approved'' (user_name u) (now_ms clk))\<rparr>) \<and>
      handleSlackInteraction clk (click u (bs ! 2)) ls =
        (succeeded ''Message rejected'',
         ls\<lparr>approvals :=
              (approvals ls)(oid \<mapsto> Decision ''rejected'' (user_name u) (now_ms clk))\<rparr>) \<and>
      handleSlackInteraction clk (click u (bs ! 1)) ls =
        ((succeeded ''Edit in dashboard'')
           \<lparr>redirect_url := Some (''/approval-queue?edit='' @ oid)\<rparr>, ls))"
  by (simp add: buttons_of_buildApprovalBlocks click_def Let_def handleSlackInteraction_def
      handleApproval_def startsWith_def)

text \<open>The three buttons of the message for outreach \<open>out_123\<close>.\<close>

theorem approval_actions_round_trip_witness:
  "map action_id (buttons_of (buildApprovalBlocks sample_notification)) =
     [''approve_out_123'', ''edit_out_123'', ''reject_out_123''] \<and>
   approvals (snd (handleSlackInteraction sample_clock
       (click sample_user (buttons_of (buildApprovalBlocks sample_notification) ! 0))
       empty_storage)) ''out_123'' = Some (Decision ''approved'' ''Rev Ops'' 1768905000000) \<and>
   approvals (snd (handleSlackInteraction sample_clock
       (click sample_user (buttons_of (buildApprovalBlocks sample_notification) ! 2))
       empty_storage)) ''out_123'' = Some (Decision ''rejected'' ''Rev Ops'' 1768905000000) \<and>
   handleSlackInteraction sample_clock
       (click sample_user (buttons_of (buildApprovalBlocks sample_notification) ! 1))
       empty_storage =
     ((succeeded ''Edit in dashboard'')\<lparr>redirect_url := Some ''/approval-queue?edit=out_123''\<rparr>,
      empty_storage)"
  using approval_actions_round_trip [of sample_notification sample_clock sample_user empty_storage]
  by (simp add: Let_def sample_notification_def sample_user_def)

subsection \<open>Approval decisions\<close>

lemma handleApproval_overwrites:
  "approvals (handleApproval clk oid st by ls) oid = Some (Decision st by (now_ms clk)) \<and>
   (\<forall>k. k \<noteq> oid \<longrightarrow> approvals (handleApproval clk oid st by ls) k = approvals ls k)"
  by (simp add: handleApproval_def)

text \<open>
  Claim C6, as amended. An approve action sets the record of its outreach id to
  \<open>approved\<close> and a reject action sets it to \<open>rejected\<close>, whatever the store held for
  that id before (an undecided item has no entry). A second decision is neither refused
  nor ignored: it replaces the first, so the record holds the status, the user and the
  time of the latest decision. The same holds for \<open>handleSlackApproval\<close>.
\<close>

theorem approval_decision_overwrites:
  "(let bs = buttons_of (buildApprovalBlocks n); oid = an_outreachId n;
        approve = (\<lambda>c u s. snd (handleSlackInteraction c (click u (bs ! 0)) s));
        reject = (\<lambda>c u s. snd (handleSlackInteraction c (click u (bs ! 2)) s))
    in approvals (approve clk1 u1 ls) oid = Some (Decision ''approved'' (user_name u1) (now_ms clk1)) \<and>
       approvals (reject clk1 u1 ls) oid = Some (Decision ''rejected'' (user_name u1) (now_ms clk1)) \<and>
       approvals (reject clk2 u2 (approve clk1 u1 ls)) oid =
         Some (Decision ''rejected'' (user_name u2) (now_ms clk2)) \<and>
       approvals (approve clk2 u2 (reject clk1 u1 ls)) oid =
         Some (Decision ''approved'' (user_name u2) (now_ms clk2))) \<and>
   approvals (handleApproval clk2 k st2 by2 (handleApproval clk1 k st1 by1 ls)) k =
     Some (Decision st2 by2 (now_ms clk2)) \<and>
   approvals (handleSlackApproval clk2 a2 k uid2 un2 (handleSlackApproval clk1 a1 k uid1 un1 ls)) k =
     Some (SlackDecision a2 uid2 un2 (now_ms clk2) ''slack'')"
  by (simp add: buttons_of_buildApprovalBlocks click_def Let_def handleSlackInteraction_def
      handleApproval_def handleSlackApproval_def startsWith_def)

text \<open>An approval by one user followed by a rejection by another.\<close>

theorem approval_decision_overwrites_witness:
  "approvals (snd (handleSlackInteraction sample_clock
       (click sample_user (buttons_of (buildApprovalBlocks sample_notification) ! 0))
       empty_storage)) ''out_123'' = Some (Decision ''approved'' ''Rev Ops'' 1768905000000) \<and>
   approvals (handleApproval later_clock ''out_123'' ''rejected'' ''Sales Lead''
       (handleApproval sample_clock ''out_123'' ''approved'' ''Rev Ops'' empty_storage)) ''out_123'' =
     Some (Decision ''rejected'' ''Sales Lead'' 1768905060000)"
  using approval_decision_overwrites [of sample_notification sample_clock sample_user
      empty_storage later_clock other_user]
  by (simp add: Let_def sample_notification_def sample_user_def)

text \<open>
  The claim as first stated fails: after \<open>approve_out_123\<close> the record is approved,
  the later \<open>reject_out_123\<close> is acknowledged as a success and the record is rejected.
\<close>

theorem one_way_approval_counterexample:
  "approvals (snd (handleSlackInteraction sample_clock
       (click sample_user (buttons_of (buildApprovalBlocks sample_notification) ! 0))
       empty_storage)) ''out_123'' = Some (Decision ''approved'' ''Rev Ops'' 1768905000000) \<and>
   fst (handleSlackInteraction later_clock
       (click other_user (buttons_of (buildApprovalBlocks sample_notification) ! 2))
       (snd (handleSlackInteraction sample_clock
          (click sample_user (buttons_of (buildApprovalBlocks sample_notification) ! 0))
          empty_storage))) = succeeded ''Message rejected'' \<and>
   approvals (snd (handleSlackInteraction later_clock
       (click other_user (buttons_of (buildApprovalBlocks sample_notification) ! 2))
       (snd (handleSlackInteraction sample_clock
          (click sample_user (buttons_of (buildApprovalBlocks sample_notification) ! 0))
          empty_storage)))) ''out_123'' = Some (Decision ''rejected'' ''Sales Lead'' 1768905060000)"
  by (simp add: buttons_of_buildApprovalBlocks click_def handleSlackInteraction_def
      handleApproval_def startsWith_def sample_notification_def sample_user_def other_user_def)

subsection \<open>Rescheduled meetings\<close>

lemma triggerPreMeetingResearch_meetings [simp]:
  "calendly_meetings (triggerPreMeetingResearch ag clk mt ls) = calendly_meetings ls"
  by (simp add: triggerPreMeetingResearch_def storePreMeetingResearch_def Let_def
      split: outcome.splits)

lemma processMeetingRescheduled_meetings:
  "calendly_meetings (snd (processMeetingRescheduled ag clk mt ls)) =
     map (\<lambda>m. if eventId (meeting m) = eventId mt
               then \<lparr>meeting = mt, createdAt = None, updatedAt = Some (now_ms clk)\<rparr>
               else m)
         (calendly_meetings ls)"
  by (simp add: processMeetingRescheduled_def updateMeeting_def Let_def split: outcome.splits)

lemma map_replace_absent:
  "find (\<lambda>m. eventId (meeting m) = k) xs = None \<Longrightarrow>
   map (\<lambda>m. if eventId (meeting m) = k then r else m) xs = xs"
  by (induction xs) (auto split: if_splits)

lemma find_replace_present:
  "find (\<lambda>m. eventId (meeting m) = k) xs \<noteq> None \<Longrightarrow> eventId (meeting r) = k \<Longrightarrow>
   find (\<lambda>m. eventId (meeting m) = k) (map (\<lambda>m. if eventId (meeting m) = k then r else m) xs)
     = Some r"
  by (induction xs) (auto split: if_splits)

text \<open>
  Claim C8, as amended. \<open>processMeetingRescheduled\<close> rewrites the stored meetings in
  place: every record with the event's id is replaced by the event's data (new start and
  end time included), every other record is kept, and none is added. With a prior record
  the lookup by event id then gives the new data; without one the store of meetings is
  unchanged and the lookup still finds nothing.
\<close>

theorem reschedule_updates_existing_only:
  "calendly_meetings (snd (processMeetingRescheduled ag clk mt ls)) =
     map (\<lambda>m. if eventId (meeting m) = eventId mt
               then \<lparr>meeting = mt, createdAt = None, updatedAt = Some (now_ms clk)\<rparr>
               else m)
         (calendly_meetings ls) \<and>
   (getMeeting (eventId mt) ls = None \<longrightarrow>
      calendly_meetings (snd (processMeetingRescheduled ag clk mt ls)) = calendly_meetings ls \<and>
      getMeeting (eventId mt) (snd (processMeetingRescheduled ag clk mt ls)) = None) \<and>
   (getMeeting (eventId mt) ls \<noteq> None \<longrightarrow>
      getMeeting (eventId mt) (snd (processMeetingRescheduled ag clk mt ls)) =
        Some \<lparr>meeting = mt, createdAt = None, updatedAt = Some (now_ms clk)\<rparr>)"
proof -
  let ?r = "\<lparr>meeting = mt, createdAt = None, updatedAt = Some (now_ms clk)\<rparr>"
  have absent: "calendly_meetings (snd (processMeetingRescheduled ag clk mt ls)) = calendly_meetings ls"
    if "getMeeting (eventId mt) ls = None"
    using that map_replace_absent [of "eventId mt" "calendly_meetings ls" ?r]
    by (simp add: processMeetingRescheduled_meetings getMeeting_def)
  have absent': "getMeeting (eventId mt) (snd (processMeetingRescheduled ag clk mt ls)) = None"
    if "getMeeting (eventId mt) ls = None"
    using that absent by (simp add: getMeeting_def)
  have present: "getMeeting (eventId mt) (snd (processMeetingRescheduled ag clk mt ls)) = Some ?r"
    if "getMeeting (eventId mt) ls \<noteq> None"
    using that find_replace_present [of "eventId mt" "calendly_meetings ls" ?r]
    by (simp add: processMeetingRescheduled_meetings getMeeting_def)
  show ?thesis
    using processMeetingRescheduled_meetings [of ag clk mt ls] absent absent' present by blast
qed

text \<open>A reschedule after a booking, and the same reschedule on an empty store.\<close>

theorem reschedule_updates_existing_only_witness:
  "getMeeting ''evt_1'' booked_storage \<noteq> None \<and>
   getMeeting ''evt_1''
     (snd (processMeetingRescheduled ok_agent later_clock (meeting_of rescheduled_delivery)
             booked_storage)) =
     Some \<lparr>meeting = meeting_of rescheduled_delivery, createdAt = None,
           updatedAt = Some 1768905060000\<rparr> \<and>
   startTime_m (meeting_of rescheduled_delivery) = ''2026-01-21T10:00:00Z'' \<and>
   getMeeting ''evt_1'' empty_storage = None \<and>
   calendly_meetings
     (snd (processMeetingRescheduled ok_agent later_clock (meeting_of rescheduled_delivery)
             empty_storage)) = []"
proof -
  have id: "eventId (meeting_of rescheduled_delivery) = ''evt_1''"
    by (simp add: meeting_of_def rescheduled_delivery_def sample_booking_def)
  have st: "startTime_m (meeting_of rescheduled_delivery) = ''2026-01-21T10:00:00Z''"
    by (simp add: meeting_of_def rescheduled_delivery_def sample_booking_def)
  have b: "getMeeting ''evt_1'' booked_storage \<noteq> None"
    by (simp add: getMeeting_def booked_storage_def empty_storage_def meeting_of_def
        created_delivery_def sample_booking_def)
  have e: "getMeeting ''evt_1'' empty_storage = None"
    by (simp add: getMeeting_def empty_storage_def)
  have e': "calendly_meetings empty_storage = []"
    by (simp add: empty_storage_def)
  show ?thesis
    using reschedule_updates_existing_only [of ok_agent later_clock
        "meeting_of rescheduled_delivery" booked_storage]
      reschedule_updates_existing_only [of ok_agent later_clock
        "meeting_of rescheduled_delivery" empty_storage]
      b e e' st
    by (simp add: id)
qed

lemma endpoint_rescheduled:
  "cw_event body = ''invitee.rescheduled'' \<Longrightarrow>
   calendly_meetings (snd (handleCalendlyWebhookEndpoint e ag clk body headers ls)) =
   calendly_meetings (snd (processMeetingRescheduled ag clk (meeting_of body) ls))"
  by (simp add: handleCalendlyWebhookEndpoint_def verifyCalendlyWebhook_def Let_def
      handleCalendlyWebhook_def storeMeetingEvent_def meeting_of_def
      processMeetingRescheduled_def updateMeeting_def
      split: prod.splits outcome.splits)

text \<open>
  The claim as first stated fails: a rescheduled event delivered to the Calendly endpoint
  with no prior record is acknowledged with 200 and leaves no meeting record for its id.
\<close>

theorem reschedule_without_record_counterexample:
  "getMeeting ''evt_1'' empty_storage = None \<and>
   http_status (fst (handleCalendlyWebhookEndpoint sample_env ok_agent sample_clock
       rescheduled_delivery Map.empty empty_storage)) = 200 \<and>
   calendly_meetings (snd (handleCalendlyWebhookEndpoint sample_env ok_agent sample_clock
       rescheduled_delivery Map.empty empty_storage)) = [] \<and>
   getMeeting ''evt_1'' (snd (handleCalendlyWebhookEndpoint sample_env ok_agent sample_clock
       rescheduled_delivery Map.empty empty_storage)) = None"
proof -
  have ev: "cw_event rescheduled_delivery = ''invitee.rescheduled''"
    by (simp add: rescheduled_delivery_def sample_booking_def)
  have m: "calendly_meetings (snd (handleCalendlyWebhookEndpoint sample_env ok_agent sample_clock
       rescheduled_delivery Map.empty empty_storage)) = []"
    by (simp add: endpoint_rescheduled [OF ev] processMeetingRescheduled_meetings empty_storage_def)
  have s: "http_status (fst (handleCalendlyWebhookEndpoint sample_env ok_agent sample_clock
       rescheduled_delivery Map.empty empty_storage)) = 200"
    by (simp add: handleCalendlyWebhookEndpoint_def verifyCalendlyWebhook_def Let_def ev
        handleCalendlyWebhook_def processMeetingRescheduled_def ok_agent_def
        split: prod.splits)
  show ?thesis using m s by (simp add: getMeeting_def empty_storage_def)
qed

subsection \<open>Repeated deliveries\<close>

lemma handleCalendlyWebhook_meetings [simp]:
  "calendly_meetings (snd (handleCalendlyWebhook ag clk body ls)) = calendly_meetings ls"
  by (simp add: handleCalendlyWebhook_def storeMeetingEvent_def Let_def split: outcome.splits)

lemma handleCalendlyWebhook_result:
  "fst (handleCalendlyWebhook ag clk body ls) = fst (handleCalendlyWebhook ag clk' body ls')"
  by (simp add: handleCalendlyWebhook_def Let_def split: outcome.splits)

lemma sendPreMeetingEmail_meetings [simp]:
  "calendly_meetings (sendPreMeetingEmail clk mt ls) = calendly_meetings ls"
  by (simp add: sendPreMeetingEmail_def storePreMeetingEmail_def Let_def)

lemma sendMeetingBookedNotification_meetings [simp]:
  "calendly_meetings (sendMeetingBookedNotification fmt clk params ls) = calendly_meetings ls"
  by (simp add: sendMeetingBookedNotification_def sendSlackMessage_def storeNotification_def Let_def)

lemma processMeetingBooked_meetings:
  "calendly_meetings (snd (processMeetingBooked ag clk mt ls)) =
     calendly_meetings ls @ [\<lparr>meeting = mt, createdAt = Some (now_ms clk), updatedAt = None\<rparr>]"
  by (simp add: processMeetingBooked_def storeMeeting_def Let_def split: outcome.splits)

lemma processMeetingBooked_outcome:
  "fst (processMeetingBooked ag clk mt ls) = fst (processMeetingBooked ag clk' mt ls')"
  by (simp add: processMeetingBooked_def Let_def split: outcome.splits)

lemma processMeetingCanceled_outcome:
  "fst (processMeetingCanceled ag clk mt ls) = fst (processMeetingCanceled ag clk' mt ls')"
  by (simp add: processMeetingCanceled_def Let_def split: outcome.splits)

lemma processMeetingRescheduled_outcome:
  "fst (processMeetingRescheduled ag clk mt ls) = fst (processMeetingRescheduled ag clk' mt ls')"
  by (simp add: processMeetingRescheduled_def Let_def split: outcome.splits)

text \<open>The response of the Calendly endpoint does not depend on the store or the clock.\<close>

lemma calendly_endpoint_response_same:
  "fst (handleCalendlyWebhookEndpoint e ag clk body headers ls) =
   fst (handleCalendlyWebhookEndpoint e' ag clk' body headers' ls')"
proof -
  obtain r1 s1 where h1: "handleCalendlyWebhook ag clk body ls = (r1, s1)"
    by (cases "handleCalendlyWebhook ag clk body ls")
  obtain r2 s2 where h2: "handleCalendlyWebhook ag clk' body ls' = (r2, s2)"
    by (cases "handleCalendlyWebhook ag clk' body ls'")
  have r: "r1 = r2"
    using handleCalendlyWebhook_result [of ag clk body ls clk' ls'] h1 h2 by simp
  obtain b1 t1 where b1: "processMeetingBooked ag clk (meeting_of body) s1 = (b1, t1)"
    by (cases "processMeetingBooked ag clk (meeting_of body) s1")
  obtain b2 t2 where b2: "processMeetingBooked ag clk' (meeting_of body) s2 = (b2, t2)"
    by (cases "processMeetingBooked ag clk' (meeting_of body) s2")
  have b: "b1 = b2"
    using processMeetingBooked_outcome [of ag clk "meeting_of body" s1 clk' s2] b1 b2 by simp
  obtain c1 u1 where c1: "processMeetingCanceled ag clk (meeting_of body) s1 = (c1, u1)"
    by (cases "processMeetingCanceled ag clk (meeting_of body) s1")
  obtain c2 u2 where c2: "processMeetingCanceled ag clk' (meeting_of body) s2 = (c2, u2)"
    by (cases "processMeetingCanceled ag clk' (meeting_of body) s2")
  have c: "c1 = c2"
    using processMeetingCanceled_outcome [of ag clk "meeting_of body" s1 clk' s2] c1 c2 by simp
  obtain d1 v1 where d1: "processMeetingRescheduled ag clk (meeting_of body) s1 = (d1, v1)"
    by (cases "processMeetingRescheduled ag clk (meeting_of body) s1")
  obtain d2 v2 where d2: "processMeetingRescheduled ag clk' (meeting_of body) s2 = (d2, v2)"
    by (cases "processMeetingRescheduled ag clk' (meeting_of body) s2")
  have d: "d1 = d2"
    using processMeetingRescheduled_outcome [of ag clk "meeting_of body" s1 clk' s2] d1 d2
    by simp
  show ?thesis
    by (simp add: handleCalendlyWebhookEndpoint_def verifyCalendlyWebhook_def Let_def
        h1 h2 r b1 b2 b c1 c2 c d1 d2 d split: outcome.splits)
qed

lemma calendly_endpoint_created_meetings:
  "cw_event body = ''invitee.created'' \<Longrightarrow>
   calendly_meetings (snd (handleCalendlyWebhookEndpoint e ag clk body headers ls)) =
     calendly_meetings ls @
     [\<lparr>meeting = meeting_of body, createdAt = Some (now_ms clk), updatedAt = None\<rparr>]"
proof -
  assume ev: "cw_event body = ''invitee.created''"
  obtain result ls1 where h: "handleCalendlyWebhook ag clk body ls = (result, ls1)"
    by (cases "handleCalendlyWebhook ag clk body ls")
  then have m1: "calendly_meetings ls1 = calendly_meetings ls"
    using handleCalendlyWebhook_meetings [of ag clk body ls] by simp
  obtain out ls2 where p: "processMeetingBooked ag clk (meeting_of body) ls1 = (out, ls2)"
    by (cases "processMeetingBooked ag clk (meeting_of body) ls1")
  then have m2: "calendly_meetings ls2 = calendly_meetings ls1 @
     [\<lparr>meeting = meeting_of body, createdAt = Some (now_ms clk), updatedAt = None\<rparr>]"
    using processMeetingBooked_meetings [of ag clk "meeting_of body" ls1] by simp
  show ?thesis
    by (cases out)
      (simp_all add: handleCalendlyWebhookEndpoint_def verifyCalendlyWebhook_def Let_def ev h p m1 m2)
qed

text \<open>
  Claim C2, as amended. The Calendly endpoint keeps no record of the deliveries it has
  seen: every delivery runs the handlers again. Delivering the same
  \<open>invitee.created\<close> body twice appends two meeting records for the same event id, one
  per delivery. The two responses are equal when the agent service answers the same way
  both times.
\<close>

theorem redelivery_is_processed_again:
  "(cw_event body = ''invitee.created'' \<longrightarrow>
      calendly_meetings
        (snd (handleCalendlyWebhookEndpoint e ag clk2 body headers
           (snd (handleCalendlyWebhookEndpoint e ag clk1 body headers ls)))) =
      calendly_meetings ls @
        [\<lparr>meeting = meeting_of body, createdAt = Some (now_ms clk1), updatedAt = None\<rparr>,
         \<lparr>meeting = meeting_of body, createdAt = Some (now_ms clk2), updatedAt = None\<rparr>]) \<and>
   fst (handleCalendlyWebhookEndpoint e ag clk2 body headers
          (snd (handleCalendlyWebhookEndpoint e ag clk1 body headers ls))) =
   fst (handleCalendlyWebhookEndpoint e ag clk1 body headers ls)"
  using calendly_endpoint_response_same [of e ag clk2 body headers
      "snd (handleCalendlyWebhookEndpoint e ag clk1 body headers ls)" e clk1 headers ls]
  by (simp add: calendly_endpoint_created_meetings)

text \<open>Two deliveries of one booking into an empty store.\<close>

theorem redelivery_is_processed_again_witness:
  "calendly_meetings
     (snd (handleCalendlyWebhookEndpoint sample_env ok_agent later_clock created_delivery Map.empty
        (snd (handleCalendlyWebhookEndpoint sample_env ok_agent sample_clock created_delivery
                Map.empty empty_storage)))) =
     [\<lparr>meeting = meeting_of created_delivery, createdAt = Some 1768905000000, updatedAt = None\<rparr>,
      \<lparr>meeting = meeting_of created_delivery, createdAt = Some 1768905060000, updatedAt = None\<rparr>]"
proof -
  have ev: "cw_event created_delivery = ''invitee.created''"
    by (simp add: created_delivery_def sample_booking_def)
  show ?thesis
    using redelivery_is_processed_again [of created_delivery sample_env ok_agent later_clock
        Map.empty sample_clock empty_storage] ev
    by (simp add: empty_storage_def)
qed

text \<open>
  The claim as first stated fails: after the second delivery the store holds two meeting
  records for event \<open>evt_1\<close> and two entries in the meeting event list, not one.
\<close>

theorem redelivery_counterexample:
  "length (filter (\<lambda>m. eventId (meeting m) = ''evt_1'')
     (calendly_meetings
        (snd (handleCalendlyWebhookEndpoint sample_env ok_agent later_clock created_delivery
                Map.empty
           (snd (handleCalendlyWebhookEndpoint sample_env ok_agent sample_clock created_delivery
                   Map.empty empty_storage)))))) = 2 \<and>
   length (meetings
        (snd (handleCalendlyWebhookEndpoint sample_env ok_agent later_clock created_delivery
                Map.empty
           (snd (handleCalendlyWebhookEndpoint sample_env ok_agent sample_clock created_delivery
                   Map.empty empty_storage))))) = 2"
proof -
  have ev: "cw_event created_delivery = ''invitee.created''"
    by (simp add: created_delivery_def sample_booking_def)
  have id: "eventId (meeting_of created_delivery) = ''evt_1''"
    by (simp add: meeting_of_def created_delivery_def sample_booking_def)
  have ms: "\<And>clk ls. length (meetings (snd (handleCalendlyWebhookEndpoint sample_env ok_agent clk
        created_delivery Map.empty ls))) = length (meetings ls) + 1"
    by (simp add: handleCalendlyWebhookEndpoint_def verifyCalendlyWebhook_def Let_def ev
        handleCalendlyWebhook_def storeMeetingEvent_def ok_agent_def processMeetingBooked_def
        storeMeeting_def triggerPreMeetingResearch_def storePreMeetingResearch_def
        sendPreMeetingEmail_def storePreMeetingEmail_def sendMeetingBookedNotification_def
        sendSlackMessage_def storeNotification_def split: prod.splits)
  show ?thesis
    by (simp add: calendly_endpoint_created_meetings ev id ms empty_storage_def)
qed

subsection \<open>Notifications for classified replies\<close>

lemma handleGmailResponse_classified:
  assumes "ag RESPONSE_CLASSIFIER
             (ClassifyPrompt (gm_from (gp_message payload)) (gm_subject (gp_message payload))
                (gm_body (gp_message payload))) = Returns r"
    and "resp_result r = Some res"
  shows "wr_classification (fst (handleGmailResponse ag clk payload ls)) = Some res \<and>
         slack_config (snd (handleGmailResponse ag clk payload ls)) = slack_config ls \<and>
         slack_notifications (snd (handleGmailResponse ag clk payload ls)) = slack_notifications ls \<and>
         slack_message_history (snd (handleGmailResponse ag clk payload ls)) =
           slack_message_history ls \<and>
         slack_console (snd (handleGmailResponse ag clk payload ls)) =
           (if classification res = Some ''positive''
            then slack_console ls @
                 [(''#revenue-approvals'',
                   ''Positive response received from '' @ gm_from (gp_message payload) @ ''!'')]
            else slack_console ls)"
  using assms
  by (simp add: handleGmailResponse_def storeEmailResponse_def sendSlackNotification_def Let_def)

lemma sendPositiveResponseNotification_effect:
  "slack_console (sendPositiveResponseNotification clk params ls) = slack_console ls \<and>
   count_notifications ''positive_response'' (sendPositiveResponseNotification clk params ls) =
     count_notifications ''positive_response'' ls +
       (if positiveResponses (sc_enableNotifications (getSlackConfig ls)) then 1 else 0) \<and>
   length (slack_notifications (sendPositiveResponseNotification clk params ls)) =
     length (slack_notifications ls) +
       (if positiveResponses (sc_enableNotifications (getSlackConfig ls)) then 1 else 0) \<and>
   length (slack_message_history (sendPositiveResponseNotification clk params ls)) =
     length (slack_message_history ls) +
       (if positiveResponses (sc_enableNotifications (getSlackConfig ls)) then 1 else 0)"
  by (simp add: sendPositiveResponseNotification_def sendSlackMessage_def storeNotification_def
      count_notifications_def Let_def)

text \<open>
  Claim C7, as amended. When the Gmail endpoint processes one reply that the classifier
  labels \<open>positive\<close>, the Slack dispatcher stores and posts exactly one
  \<open>positive_response\<close> notification if positive-response notifications are enabled in
  the Slack configuration (the default), and none if they are disabled; the handler's
  placeholder prints its one console line in either case. A reply with any other label,
  \<open>neutral\<close> included, leaves the notifications, the message history and the console
  as they were.
\<close>

theorem positive_reply_notifications:
  assumes "messageData = Some d" and "d \<noteq> []" and "decode_pubsub e d = Returns decodedData"
    and "\<forall>p. ag RESPONSE_CLASSIFIER p = Returns r" and "resp_result r = Some res"
  shows
    "(let ls' = snd (handleGmailWebhookEndpoint e ag clk messageData headers ls);
          enabled = positiveResponses (sc_enableNotifications (getSlackConfig ls))
      in (classification res = Some ''positive'' \<longrightarrow>
            count_notifications ''positive_response'' ls' =
              count_notifications ''positive_response'' ls + (if enabled then 1 else 0) \<and>
            length (slack_notifications ls') =
              length (slack_notifications ls) + (if enabled then 1 else 0) \<and>
            length (slack_message_history ls') =
              length (slack_message_history ls) + (if enabled then 1 else 0) \<and>
            length (slack_console ls') = length (slack_console ls) + 1) \<and>
         (classification res \<noteq> Some ''positive'' \<longrightarrow>
            slack_notifications ls' = slack_notifications ls \<and>
            slack_message_history ls' = slack_message_history ls \<and>
            slack_console ls' = slack_console ls))"
proof -
  define payload where "payload = emailPayload_of decodedData clk"
  obtain result ls1 where h: "handleGmailResponse ag clk payload ls = (result, ls1)"
    by (cases "handleGmailResponse ag clk payload ls")
  have a: "ag RESPONSE_CLASSIFIER
             (ClassifyPrompt (gm_from (gp_message payload)) (gm_subject (gp_message payload))
                (gm_body (gp_message payload))) = Returns r"
    using assms(4) by blast
  have H: "wr_classification result = Some res \<and>
         slack_config ls1 = slack_config ls \<and>
         slack_notifications ls1 = slack_notifications ls \<and>
         slack_message_history ls1 = slack_message_history ls \<and>
         slack_console ls1 =
           (if classification res = Some ''positive''
            then slack_console ls @
                 [(''#revenue-approvals'',
                   ''Positive response received from '' @ gm_from (gp_message payload) @ ''!'')]
            else slack_console ls)"
    using handleGmailResponse_classified [of ag payload r res clk ls] a assms(5) h by simp
  have cfg: "getSlackConfig ls1 = getSlackConfig ls"
    using H by (simp add: getSlackConfig_def)
  have cnt: "count_notifications ''positive_response'' ls1 = count_notifications ''positive_response'' ls"
    using H by (simp add: count_notifications_def)
  have ep: "snd (handleGmailWebhookEndpoint e ag clk messageData headers ls) =
     (if classification res = Some ''positive''
      then sendPositiveResponseNotification clk
             \<lparr>pr_from = gm_from (gp_message payload),
              pr_accountName = at_index (split_on CHR ''@'' (gm_from (gp_message payload))) 1,
              pr_subject = gm_subject (gp_message payload),
              pr_preview = gm_body (gp_message payload),
              pr_signals = Some (case key_signals res of None \<Rightarrow> [] | Some ks \<Rightarrow> ks)\<rparr> ls1
      else ls1)"
    using assms(1,2,3) H
    by (simp add: handleGmailWebhookEndpoint_def or_default_def Let_def
        payload_def [symmetric] h)
  show ?thesis
    unfolding Let_def ep
    using H sendPositiveResponseNotification_effect [of clk _ ls1]
    by (simp add: cfg cnt)
qed

lemma sample_gmail_delivery:
  "''eyJoaXN0b3J5SWQiOiI0MiJ9'' \<noteq> [] \<and>
   decode_pubsub sample_env ''eyJoaXN0b3J5SWQiOiI0MiJ9'' =
     Returns \<lparr>pd_historyId = Some ''42'', pd_emailAddress = Some ''me@yourcompany.com''\<rparr>"
  by (simp add: sample_env_def)

lemma classifier_agent_answers:
  "\<forall>p. classifier_agent label RESPONSE_CLASSIFIER p =
         Returns \<lparr>resp_status = ''success'',
                  resp_result = Some \<lparr>classification = Some label, key_signals = None,
                                      winning_phrases = None, other_content = []\<rparr>,
                  resp_message = None\<rparr>"
  by (simp add: classifier_agent_def)

text \<open>One positive and one neutral reply on the default configuration.\<close>

theorem positive_reply_notifications_witness:
  "count_notifications ''positive_response''
     (snd (handleGmailWebhookEndpoint sample_env (classifier_agent ''positive'') sample_clock
             (Some ''eyJoaXN0b3J5SWQiOiI0MiJ9'') Map.empty empty_storage)) = 1 \<and>
   length (slack_console
     (snd (handleGmailWebhookEndpoint sample_env (classifier_agent ''positive'') sample_clock
             (Some ''eyJoaXN0b3J5SWQiOiI0MiJ9'') Map.empty empty_storage))) = 1 \<and>
   slack_notifications
     (snd (handleGmailWebhookEndpoint sample_env (classifier_agent ''neutral'') sample_clock
             (Some ''eyJoaXN0b3J5SWQiOiI0MiJ9'') Map.empty empty_storage)) = [] \<and>
   slack_console
     (snd (handleGmailWebhookEndpoint sample_env (classifier_agent ''neutral'') sample_clock
             (Some ''eyJoaXN0b3J5SWQiOiI0MiJ9'') Map.empty empty_storage)) = []"
proof -
  have on: "positiveResponses (sc_enableNotifications (getSlackConfig empty_storage))"
    by (simp add: getSlackConfig_def empty_storage_def DEFAULT_SLACK_CONFIG_def)
  have z: "count_notifications ''positive_response'' empty_storage = 0"
    "slack_notifications empty_storage = []" "slack_console empty_storage = []"
    by (simp_all add: count_notifications_def empty_storage_def)
  show ?thesis
    using positive_reply_notifications [of "Some ''eyJoaXN0b3J5SWQiOiI0MiJ9''"
        "''eyJoaXN0b3J5SWQiOiI0MiJ9''" sample_env _ "classifier_agent ''positive''" _
        "\<lparr>classification = Some ''positive'', key_signals = None, winning_phrases = None,
          other_content = []\<rparr>" sample_clock Map.empty empty_storage]
      positive_reply_notifications [of "Some ''eyJoaXN0b3J5SWQiOiI0MiJ9''"
        "''eyJoaXN0b3J5SWQiOiI0MiJ9''" sample_env _ "classifier_agent ''neutral''" _
        "\<lparr>classification = Some ''neutral'', key_signals = None, winning_phrases = None,
          other_content = []\<rparr>" sample_clock Map.empty empty_storage]
      sample_gmail_delivery classifier_agent_answers [of "''positive''"]
      classifier_agent_answers [of "''neutral''"] on
    by (simp add: Let_def z)
qed

text \<open>
  The claim as first stated fails when positive-response notifications are switched off:
  the reply is classified \<open>positive\<close>, the endpoint answers 200, and no notification
  is stored or posted.
\<close>

theorem notification_disabled_counterexample:
  "wr_classification
     (fst (handleGmailResponse (classifier_agent ''positive'') sample_clock
             (emailPayload_of
                \<lparr>pd_historyId = Some ''42'', pd_emailAddress = Some ''me@yourcompany.com''\<rparr>
                sample_clock) muted_storage)) =
     Some \<lparr>classification = Some ''positive'', key_signals = None, winning_phrases = None,
           other_content = []\<rparr> \<and>
   http_status
     (fst (handleGmailWebhookEndpoint sample_env (classifier_agent ''positive'') sample_clock
             (Some ''eyJoaXN0b3J5SWQiOiI0MiJ9'') Map.empty muted_storage)) = 200 \<and>
   slack_notifications
     (snd (handleGmailWebhookEndpoint sample_env (classifier_agent ''positive'') sample_clock
             (Some ''eyJoaXN0b3J5SWQiOiI0MiJ9'') Map.empty muted_storage)) = [] \<and>
   slack_message_history
     (snd (handleGmailWebhookEndpoint sample_env (classifier_agent ''positive'') sample_clock
             (Some ''eyJoaXN0b3J5SWQiOiI0MiJ9'') Map.empty muted_storage)) = []"
proof -
  have h: "handleGmailResponse (classifier_agent ''positive'') sample_clock
             (emailPayload_of
                \<lparr>pd_historyId = Some ''42'', pd_emailAddress = Some ''me@yourcompany.com''\<rparr>
                sample_clock) muted_storage =
     (\<lparr>success = True, wr_message = None, wr_data = None, wr_error = None, wr_analysis = None,
       wr_classification =
         Some \<lparr>classification = Some ''positive'', key_signals = None, winning_phrases = None,
               other_content = []\<rparr>,
       redirect_url = None\<rparr>,
      sendSlackNotification ''#revenue-approvals''
        (''Positive response received from '' @
           gm_from (gp_message (emailPayload_of
             \<lparr>pd_historyId = Some ''42'', pd_emailAddress = Some ''me@yourcompany.com''\<rparr>
             sample_clock)) @ ''!'')
        (storeEmailResponse
           \<lparr>er_message_id = ''me@yourcompany.com'', er_thread_id = [],
            er_from = ''prospect@example.com'',
            er_classification =
              Some \<lparr>classification = Some ''positive'', key_signals = None,
                    winning_phrases = None, other_content = []\<rparr>,
            er_timestamp = 1768905000000\<rparr> muted_storage))"
    by (simp add: handleGmailResponse_def classifier_agent_def Let_def emailPayload_of_def
        or_default_def)
  have off: "\<not> positiveResponses (sc_enableNotifications (getSlackConfig
      (sendSlackNotification c m (storeEmailResponse r muted_storage))))" for c m r
    by (simp add: getSlackConfig_def sendSlackNotification_def storeEmailResponse_def
        muted_storage_def empty_storage_def DEFAULT_SLACK_CONFIG_def)
  have st: "slack_notifications (sendSlackNotification c m (storeEmailResponse r muted_storage)) = []
      \<and> slack_message_history (sendSlackNotification c m (storeEmailResponse r muted_storage)) = []"
    for c m r
    by (simp add: sendSlackNotification_def storeEmailResponse_def muted_storage_def
        empty_storage_def)
  show ?thesis
    by (simp add: handleGmailWebhookEndpoint_def sample_env_def or_default_def Let_def h
        sendPositiveResponseNotification_def off st)
qed

end
